theory Spec2Isabelle
  imports Main
begin

section \<open>Data model\<close>

text \<open>
  The repository holds three variants of one scanner screen:
  \<^item> the ref-based screen (first file of \<^verbatim>\<open>src/unnamed/part_000\<close>, lines 1-632), whose
    handler debounces with \<^verbatim>\<open>isProcessingRef\<close>, \<^verbatim>\<open>lastScannedCode\<close> and
    \<^verbatim>\<open>lastScannedTime\<close>;
  \<^item> the state-based screen \<^verbatim>\<open>src/app/index.tsx\<close>, which debounces with the boolean
    \<^verbatim>\<open>isScanning\<close>;
  \<^item> the older screen (second file of \<^verbatim>\<open>src/unnamed/part_000\<close>, from line 633), also
    with \<^verbatim>\<open>isScanning\<close>, whose records carry no timestamp.

  Timestamps are the integers of \<^verbatim>\<open>Date.now()\<close> (milliseconds), modelled as \<open>int\<close>.
  String literals of the source with accented letters are written without the accent.
\<close>

text \<open>\<^verbatim>\<open>BarcodeScanningResult\<close>: only \<^verbatim>\<open>data\<close> and \<^verbatim>\<open>type\<close> are read by the screens.\<close>

record scan_result =
  result_data :: string
  result_type :: string

text \<open>
  Modelled from the spec: \<^verbatim>\<open>ScannedCode\<close> of \<^verbatim>\<open>../src/models\<close> is not among the sources.
  Spec section 3 gives a record an identifier assigned by the store, the payload, the type tag
  and the creation timestamp; the screens read \<^verbatim>\<open>id\<close>, \<^verbatim>\<open>data\<close>, \<^verbatim>\<open>type\<close> and
  \<^verbatim>\<open>timestamp\<close>.
\<close>

record ScannedCode =
  code_id :: nat
  code_data :: string
  code_type :: string
  code_timestamp :: int

text \<open>The shape of the \<^verbatim>\<open>stats\<close> state of the screens (\<^verbatim>\<open>total\<close>, \<^verbatim>\<open>porTipo\<close>, \<^verbatim>\<open>ultimoEscaneo\<close>).\<close>

record Stats =
  total :: nat
  porTipo :: "(string \<times> nat) list"
  ultimoEscaneo :: "int option"

datatype error = StorageError | NetworkError | NotificationError

section \<open>The local store\<close>

text \<open>
  Modelled from the spec: the class \<^verbatim>\<open>Database\<close> of \<^verbatim>\<open>../src/database\<close> is not among the
  sources; only its callers are. Spec section 4.2: \<open>exists\<close> is true iff some record has the
  payload; \<open>insert\<close> always creates a new record with a fresh identifier and the current
  timestamp; \<open>list\<close> is most-recent-first; \<open>deleteById\<close> removes the record of that
  identifier and is a no-op when it is absent; \<open>clearAll\<close> removes every record;
  \<open>computeStats\<close> is derived from the list; any storage failure surfaces as \<open>StorageError\<close>.
  The field \<open>failing\<close> names the operations whose backend currently fails, and \<open>calls\<close>
  records every invocation, so that retries would be visible.
\<close>

datatype db_op = OpRead | OpExists | OpInsert | OpDelete | OpClear | OpStats

record Database =
  records :: "ScannedCode list"
  next_id :: nat
  failing :: "db_op list"
  calls :: "db_op list"

definition attempt :: "db_op \<Rightarrow> Database \<Rightarrow> Database" where
  "attempt opn d = d\<lparr>calls := calls d @ [opn]\<rparr>"

definition fails :: "db_op \<Rightarrow> Database \<Rightarrow> bool" where
  "fails opn d = (opn \<in> set (failing d))"

definition existeCodigo :: "string \<Rightarrow> Database \<Rightarrow> (error + bool) \<times> Database" where
  "existeCodigo payload d =
     (if fails OpExists d then (Inl StorageError, attempt OpExists d)
      else (Inr (\<exists>c \<in> set (records d). code_data c = payload), attempt OpExists d))"

definition insertarCodigo ::
  "string \<Rightarrow> string \<Rightarrow> int \<Rightarrow> Database \<Rightarrow> (error + ScannedCode) \<times> Database" where
  "insertarCodigo payload typeTag now d =
     (if fails OpInsert d then (Inl StorageError, attempt OpInsert d)
      else
        let c = \<lparr>code_id = next_id d, code_data = payload, code_type = typeTag,
                 code_timestamp = now\<rparr>
        in (Inr c, (attempt OpInsert d)\<lparr>records := c # records d, next_id := Suc (next_id d)\<rparr>))"

definition consultarCodigos :: "Database \<Rightarrow> (error + ScannedCode list) \<times> Database" where
  "consultarCodigos d =
     (if fails OpRead d then (Inl StorageError, attempt OpRead d)
      else (Inr (records d), attempt OpRead d))"

definition eliminarCodigo :: "nat \<Rightarrow> Database \<Rightarrow> (error + unit) \<times> Database" where
  "eliminarCodigo i d =
     (if fails OpDelete d then (Inl StorageError, attempt OpDelete d)
      else (Inr (), (attempt OpDelete d)\<lparr>records := filter (\<lambda>c. code_id c \<noteq> i) (records d)\<rparr>))"

definition limpiarCodigos :: "Database \<Rightarrow> (error + unit) \<times> Database" where
  "limpiarCodigos d =
     (if fails OpClear d then (Inl StorageError, attempt OpClear d)
      else (Inr (), (attempt OpClear d)\<lparr>records := []\<rparr>))"

definition computeStats :: "ScannedCode list \<Rightarrow> Stats" where
  "computeStats cs =
     \<lparr>total = length cs,
      porTipo = map (\<lambda>t. (t, length (filter (\<lambda>c. code_type c = t) cs)))
                    (remdups (map code_type cs)),
      ultimoEscaneo = (case cs of [] \<Rightarrow> None | c # _ \<Rightarrow> Some (code_timestamp c))\<rparr>"

definition obtenerEstadisticas :: "Database \<Rightarrow> (error + Stats) \<times> Database" where
  "obtenerEstadisticas d =
     (if fails OpStats d then (Inl StorageError, attempt OpStats d)
      else (Inr (computeStats (records d)), attempt OpStats d))"

definition empty_db :: Database where
  "empty_db = \<lparr>records = [], next_id = 0, failing = [], calls = []\<rparr>"

section \<open>Requests to the remote endpoint\<close>

text \<open>
  The argument of \<^verbatim>\<open>fetch\<close>: the URL, the method, the headers, and the object handed to
  \<^verbatim>\<open>JSON.stringify\<close> as the list of its fields in the order of the object literal.
\<close>

datatype json = JString string | JNumber int

record http_request =
  req_url :: string
  req_method :: string
  req_headers :: "(string \<times> string) list"
  req_body :: "(string \<times> json) list"

text \<open>
  \<^verbatim>\<open>fetch\<close> rejects on a network failure and resolves otherwise, whatever the HTTP status
  (the screens never read the response).
\<close>

datatype fetch_outcome = Resolved nat | Rejected

text \<open>The network: the outcome of the \<open>i\<close>-th \<^verbatim>\<open>fetch\<close> of a synchronisation (from 0).\<close>

type_synonym network = "nat \<Rightarrow> http_request \<Rightarrow> fetch_outcome"

section \<open>The screen state\<close>

text \<open>
  What a pending \<^verbatim>\<open>setTimeout\<close> callback does when it fires: \<open>Unlock\<close> is the callback of
  the ref-based handler (\<^verbatim>\<open>isProcessingRef.current = false\<close>), \<open>ResumeScanning\<close> the one of
  the state-based handlers (\<^verbatim>\<open>setIsScanning(true)\<close>), \<open>LocalModeAlert\<close> the one of
  \<^verbatim>\<open>syncWithServer\<close> in local mode (the alert, then \<^verbatim>\<open>setIsSyncing(false)\<close>).
\<close>

datatype timer_action = Unlock | ResumeScanning | LocalModeAlert string

text \<open>
  The platform as \<^verbatim>\<open>showNotification\<close> meets it: whether \<^verbatim>\<open>Platform.OS\<close> is \<^verbatim>\<open>"web"\<close>;
  on the web, whether \<^verbatim>\<open>window.Notification\<close> exists with a permission other than
  \<^verbatim>\<open>"denied"\<close>, and whether \<^verbatim>\<open>Notification.requestPermission()\<close> rejects or resolves, to
  \<^verbatim>\<open>"granted"\<close> (\<open>Inr True\<close>) or to another answer; and whether the call that shows the
  notification (\<^verbatim>\<open>new Notification\<close>, \<^verbatim>\<open>Notifications.scheduleNotificationAsync\<close>) succeeds
  or throws.
\<close>

record platform =
  is_web :: bool
  web_notifications :: bool
  request_permission :: "error + bool"
  delivers :: bool

text \<open>
  The state of a screen and of its collaborators. \<open>isScanning\<close> is the React state of the
  state-based screens and \<open>isScanning_seen\<close> its value at the last render, which is the one
  the closure of the attached handler reads. \<open>pending\<close> is the handler instance that
  passed the guards of the ref-based \<^verbatim>\<open>onBarcodeScanned\<close> and is suspended at its first
  \<^verbatim>\<open>await\<close>; \<open>timers\<close> are the scheduled callbacks with their due times;
  \<open>fetches\<close>, \<open>notifications\<close>, \<open>alerts\<close> and \<open>console\<close> are what the network, the
  notification sink, \<^verbatim>\<open>Alert.alert\<close> and the console have received.
\<close>

record screen =
  lastScannedCode :: string
  lastScannedTime :: int
  isProcessingRef :: bool
  isScanning :: bool
  isScanning_seen :: bool
  db :: "Database option"
  scannedCodes :: "ScannedCode list"
  stats :: Stats
  isSyncing :: bool
  pending :: "scan_result option"
  timers :: "(int \<times> timer_action) list"
  fetches :: "http_request list"
  notifications :: "string list"
  alerts :: "(string \<times> string) list"
  console :: "string list"
  platform_env :: platform

definition SCAN_COOLDOWN :: int where
  "SCAN_COOLDOWN = 3000"

definition PROCESSING_TIMEOUT :: int where
  "PROCESSING_TIMEOUT = 1000"

text \<open>A native device whose notification call succeeds.\<close>

definition native_platform :: platform where
  "native_platform =
     \<lparr>is_web = False, web_notifications = False, request_permission = Inr False,
      delivers = True\<rparr>"

definition initial_screen :: screen where
  "initial_screen =
     \<lparr>lastScannedCode = [], lastScannedTime = 0, isProcessingRef = False, isScanning = True,
      isScanning_seen = True, db = None, scannedCodes = [],
      stats = \<lparr>total = 0, porTipo = [], ultimoEscaneo = None\<rparr>,
      isSyncing = False, pending = None, timers = [], fetches = [], notifications = [],
      alerts = [], console = [], platform_env = native_platform\<rparr>"

text \<open>A render of the component: the handler attached from now on sees the current state.\<close>

definition render :: "screen \<Rightarrow> screen" where
  "render s = s\<lparr>isScanning_seen := isScanning s\<rparr>"

definition console_log :: "string \<Rightarrow> screen \<Rightarrow> screen" where
  "console_log m s = s\<lparr>console := console s @ [m]\<rparr>"

definition Alert_alert :: "string \<Rightarrow> string \<Rightarrow> screen \<Rightarrow> screen" where
  "Alert_alert title m s = s\<lparr>alerts := alerts s @ [(title, m)]\<rparr>"

definition setTimeout :: "timer_action \<Rightarrow> int \<Rightarrow> int \<Rightarrow> screen \<Rightarrow> screen" where
  "setTimeout act delay now s = s\<lparr>timers := timers s @ [(now + delay, act)]\<rparr>"

text \<open>
  \<^verbatim>\<open>showNotification\<close> (part_000:196-224 and 825-857, index.tsx:172-200, the same code).
  On the web it asks for the permission when notifications are usable and shows the
  notification when the answer is \<^verbatim>\<open>"granted"\<close>; with another answer, or when notifications
  are not usable, it shows an alert titled \<open>QR Scanner\<close> with the message. Elsewhere it
  schedules the notification. Whatever throws inside is caught: the error is logged and the
  same alert is shown. \<open>notifications\<close> records the messages that reached the sink.
\<close>

definition showNotification :: "string \<Rightarrow> screen \<Rightarrow> screen" where
  "showNotification message s =
     (let p = platform_env s;
          shown = s\<lparr>notifications := notifications s @ [message]\<rparr>;
          caught = Alert_alert ''QR Scanner'' message
                     (console_log ''Error mostrando notificacion:'' s)
      in if is_web p then
           (if web_notifications p then
              (case request_permission p of
                 Inl e \<Rightarrow> caught
               | Inr granted \<Rightarrow>
                   if granted then (if delivers p then shown else caught)
                   else Alert_alert ''QR Scanner'' message s)
            else Alert_alert ''QR Scanner'' message s)
         else if delivers p then shown else caught)"

text \<open>
  \<^verbatim>\<open>updateData\<close> (part_000:87-96): reads the codes and the statistics and stores both in the
  screen state; a failure of either read is caught, logged to the console, and the function
  returns normally. Its promise never rejects, so the result is always \<open>Inr ()\<close>.
\<close>

definition updateData :: "Database \<Rightarrow> screen \<Rightarrow> (error + unit) \<times> screen" where
  "updateData database s =
     (case consultarCodigos database of
        (Inl e, d1) \<Rightarrow>
          (Inr (), console_log ''Error actualizando datos:'' (s\<lparr>db := Some d1\<rparr>))
      | (Inr codes, d1) \<Rightarrow>
          (case obtenerEstadisticas d1 of
             (Inl e, d2) \<Rightarrow>
               (Inr (), console_log ''Error actualizando datos:'' (s\<lparr>db := Some d2\<rparr>))
           | (Inr statistics, d2) \<Rightarrow>
               (Inr (), s\<lparr>db := Some d2, scannedCodes := codes, stats := statistics\<rparr>)))"

section \<open>The debouncing scan handler (part_000:99-146)\<close>

datatype decision = Accept | RejectBusy | RejectDuplicate

text \<open>
  The \<^verbatim>\<open>try\<close> block (part_000:122-135), run when the awaited store calls settle at time
  \<open>now\<close>: the existence check; for a known payload only the notification; for a new one the
  notification, the insertion and \<^verbatim>\<open>updateData\<close>. A store failure leaves the block as
  \<open>Inl\<close>. With no database connection the block does nothing. The awaited calls of one
  handler instance are taken to settle together, at the one time \<open>now\<close>.
\<close>

definition onBarcodeScanned_try ::
  "scan_result \<Rightarrow> int \<Rightarrow> screen \<Rightarrow> (error + unit) \<times> screen" where
  "onBarcodeScanned_try result now s =
     (case db s of
        None \<Rightarrow> (Inr (), s)
      | Some d \<Rightarrow>
          (case existeCodigo (result_data result) d of
             (Inl e, d1) \<Rightarrow> (Inl e, s\<lparr>db := Some d1\<rparr>)
           | (Inr existe, d1) \<Rightarrow>
               if existe then
                 (Inr (), showNotification (''Codigo ya escaneado: '' @ result_data result)
                            (s\<lparr>db := Some d1\<rparr>))
               else
                 let s1 = showNotification (''Nuevo codigo escaneado: '' @ result_data result)
                            (s\<lparr>db := Some d1\<rparr>)
                 in (case insertarCodigo (result_data result) (result_type result) now d1 of
                       (Inl e, d2) \<Rightarrow> (Inl e, s1\<lparr>db := Some d2\<rparr>)
                     | (Inr c, d2) \<Rightarrow> updateData d2 (s1\<lparr>db := Some d2\<rparr>))))"

text \<open>
  The rest of the handler after its guards (part_000:122-145): the \<^verbatim>\<open>try\<close> block, the
  \<^verbatim>\<open>catch\<close> (console error and alert), and the \<^verbatim>\<open>finally\<close>, which only now schedules the
  callback that clears \<^verbatim>\<open>isProcessingRef\<close>, \<open>PROCESSING_TIMEOUT\<close> after the current time.
\<close>

definition onBarcodeScanned_settle :: "int \<Rightarrow> screen \<Rightarrow> screen" where
  "onBarcodeScanned_settle now s =
     (case pending s of
        None \<Rightarrow> s
      | Some result \<Rightarrow>
          let (r, s1) = onBarcodeScanned_try result now (s\<lparr>pending := None\<rparr>);
              s2 = (case r of
                      Inl e \<Rightarrow>
                        Alert_alert ''Error'' ''No se pudo procesar el codigo escaneado''
                          (console_log ''Error procesando escaneo:'' s1)
                    | Inr u \<Rightarrow> s1)
          in setTimeout Unlock PROCESSING_TIMEOUT now s2)"

text \<open>
  \<^verbatim>\<open>onBarcodeScanned\<close> up to its first \<^verbatim>\<open>await\<close> (part_000:99-124), with the outcome of the
  guards as a \<open>decision\<close>: the spec's \<open>decide\<close>. \<open>currentTime\<close> is the value of
  \<^verbatim>\<open>Date.now()\<close>. With a database the accepted handler is suspended at
  \<^verbatim>\<open>await db.existeCodigo\<close> (it becomes \<open>pending\<close>); with none, the \<^verbatim>\<open>try\<close> block is empty
  and the \<^verbatim>\<open>finally\<close> runs at once.
\<close>

definition onBarcodeScanned :: "scan_result \<Rightarrow> int \<Rightarrow> screen \<Rightarrow> decision \<times> screen" where
  "onBarcodeScanned result currentTime s =
     (if isProcessingRef s then
        (RejectBusy, console_log ''Escaneo ignorado: ya procesando'' s)
      else if lastScannedCode s = result_data result
              \<and> currentTime - lastScannedTime s < SCAN_COOLDOWN then
        (RejectDuplicate, console_log ''scaneo ignorado: mismo codigo muy reciente'' s)
      else
        let s1 = console_log (''Procesando escaneo: '' @ result_data result)
                   (s\<lparr>isProcessingRef := True, lastScannedCode := result_data result,
                      lastScannedTime := currentTime\<rparr>);
            s2 = s1\<lparr>pending := Some result\<rparr>
        in (Accept, if db s2 = None then onBarcodeScanned_settle currentTime s2 else s2))"

text \<open>
  Firing the callbacks that are due at time \<open>now\<close>, earliest first.
\<close>

fun run_timer :: "timer_action \<Rightarrow> screen \<Rightarrow> screen" where
  "run_timer Unlock s = console_log ''Escaneo desbloqueado'' (s\<lparr>isProcessingRef := False\<rparr>)"
| "run_timer ResumeScanning s = s\<lparr>isScanning := True\<rparr>"
| "run_timer (LocalModeAlert m) s = (Alert_alert ''Modo Local'' m s)\<lparr>isSyncing := False\<rparr>"

definition fire_timers :: "int \<Rightarrow> screen \<Rightarrow> screen" where
  "fire_timers now s =
     foldl (\<lambda>s' act. run_timer act s')
       (s\<lparr>timers := filter (\<lambda>(due, act). \<not> due \<le> now) (timers s)\<rparr>)
       (map snd (sort_key fst (filter (\<lambda>(due, act). due \<le> now) (timers s))))"

text \<open>
  What happens to the screen, in order: a decode event delivered at a time, the store calls
  of the suspended handler settling at a time, or time passing. Callbacks due by the time of
  an event run before it.
\<close>

datatype event = Decode scan_result int | Settle int | Tick int

fun step :: "event \<Rightarrow> screen \<Rightarrow> decision option \<times> screen" where
  "step (Decode result t) s =
     (let (d, s') = onBarcodeScanned result t (fire_timers t s) in (Some d, s'))"
| "step (Settle t) s = (None, onBarcodeScanned_settle t (fire_timers t s))"
| "step (Tick t) s = (None, fire_timers t s)"

fun run :: "event list \<Rightarrow> screen \<Rightarrow> decision option list \<times> screen" where
  "run [] s = ([], s)"
| "run (e # es) s =
     (let (d, s1) = step e s; (ds, s2) = run es s1 in (d # ds, s2))"

section \<open>The state-based scan handlers (index.tsx:100-122, part_000:802-822)\<close>

text \<open>
  The handler of \<^verbatim>\<open>src/app/index.tsx\<close>: it returns at once when the \<^verbatim>\<open>isScanning\<close> of its
  closure (the value at the last render) is false; otherwise it sets the state to false,
  schedules its re-enabling after 1000 ms, notifies, and with a database inserts the code and
  refreshes the list. It has no existence check and no \<^verbatim>\<open>try\<close>: a store failure rejects
  the handler's promise (\<open>Inl\<close>). The awaited calls are taken to complete at the time
  \<open>now\<close> of the event.
\<close>

definition onBarcodeScanned_index ::
  "scan_result \<Rightarrow> int \<Rightarrow> screen \<Rightarrow> (error + unit) \<times> screen" where
  "onBarcodeScanned_index result now s =
     (if \<not> isScanning_seen s then (Inr (), s)
      else
        let s1 = setTimeout ResumeScanning 1000 now (s\<lparr>isScanning := False\<rparr>);
            s2 = showNotification (''Codigo escaneado: '' @ result_data result) s1
        in (case db s2 of
              None \<Rightarrow> (Inr (), s2)
            | Some d \<Rightarrow>
                (case insertarCodigo (result_data result) (result_type result) now d of
                   (Inl e, d1) \<Rightarrow> (Inl e, s2\<lparr>db := Some d1\<rparr>)
                 | (Inr c, d1) \<Rightarrow>
                     (case consultarCodigos d1 of
                        (Inl e, d2) \<Rightarrow> (Inl e, s2\<lparr>db := Some d2\<rparr>)
                      | (Inr codes, d2) \<Rightarrow>
                          updateData d2 (s2\<lparr>db := Some d2, scannedCodes := codes\<rparr>)))))"

text \<open>
  The handler of the older screen (part_000:802-822): the same guard; it notifies, with a
  database inserts the code and reads the list, and only then schedules the re-enabling,
  after 2000 ms. It has no \<^verbatim>\<open>try\<close> either: a store failure rejects its promise before the
  re-enabling is scheduled.
\<close>

definition onBarcodeScanned_legacy ::
  "scan_result \<Rightarrow> int \<Rightarrow> screen \<Rightarrow> (error + unit) \<times> screen" where
  "onBarcodeScanned_legacy result now s =
     (if \<not> isScanning_seen s then (Inr (), s)
      else
        let s1 = showNotification (''Codigo escaneado: '' @ result_data result)
                   (s\<lparr>isScanning := False\<rparr>)
        in (case db s1 of
              None \<Rightarrow> (Inr (), setTimeout ResumeScanning 2000 now s1)
            | Some d \<Rightarrow>
                (case insertarCodigo (result_data result) (result_type result) now d of
                   (Inl e, d1) \<Rightarrow> (Inl e, s1\<lparr>db := Some d1\<rparr>)
                 | (Inr c, d1) \<Rightarrow>
                     (case consultarCodigos d1 of
                        (Inl e, d2) \<Rightarrow> (Inl e, s1\<lparr>db := Some d2\<rparr>)
                      | (Inr codes, d2) \<Rightarrow>
                          (Inr (), setTimeout ResumeScanning 2000 now
                                     (s1\<lparr>db := Some d2, scannedCodes := codes\<rparr>))))))"

section \<open>Connecting to the store\<close>

text \<open>
  \<^verbatim>\<open>retrieveLocalDbData\<close> of the ref-based screen and of \<^verbatim>\<open>src/app/index.tsx\<close> (lines 64-73
  of both). \<^verbatim>\<open>connectDb\<close> is not among the sources: its outcome, the connection or a
  failure, is the parameter \<open>connection\<close>. A failure is caught, logged and reported by an
  alert.
\<close>

definition retrieveLocalDbData :: "error + Database \<Rightarrow> screen \<Rightarrow> screen" where
  "retrieveLocalDbData connection s =
     (case connection of
        Inl e \<Rightarrow>
          Alert_alert ''Error'' ''No se pudo conectar a la base de datos''
            (console_log ''Error conectando a la base de datos:'' s)
      | Inr database \<Rightarrow> snd (updateData database (s\<lparr>db := Some database\<rparr>)))"

text \<open>
  \<^verbatim>\<open>retrieveLocalDbData\<close> of the older screen (part_000:701-705), which has no \<^verbatim>\<open>try\<close>: a
  failure of the connection or of the list read rejects its promise.
\<close>

definition retrieveLocalDbData_legacy ::
  "error + Database \<Rightarrow> screen \<Rightarrow> (error + unit) \<times> screen" where
  "retrieveLocalDbData_legacy connection s =
     (case connection of
        Inl e \<Rightarrow> (Inl e, s)
      | Inr database \<Rightarrow>
          (case consultarCodigos database of
             (Inl e, d1) \<Rightarrow> (Inl e, s\<lparr>db := Some d1\<rparr>)
           | (Inr codes, d1) \<Rightarrow> (Inr (), s\<lparr>db := Some d1, scannedCodes := codes\<rparr>)))"

section \<open>Deleting and clearing (part_000:226-260)\<close>

text \<open>The \<^verbatim>\<open>onPress\<close> callback of the confirmation in \<^verbatim>\<open>clearScannedCodes\<close>.\<close>

definition clearScannedCodes_onPress :: "screen \<Rightarrow> screen" where
  "clearScannedCodes_onPress s =
     (case db s of
        None \<Rightarrow> s
      | Some d \<Rightarrow>
          (case limpiarCodigos d of
             (Inl e, d1) \<Rightarrow>
               Alert_alert ''Error'' ''No se pudo limpiar el historial''
                 (console_log ''Error limpiando codigos:'' (s\<lparr>db := Some d1\<rparr>))
           | (Inr u, d1) \<Rightarrow>
               Alert_alert ''Exito'' ''Historial limpiado''
                 (snd (updateData d1 (s\<lparr>db := Some d1\<rparr>)))))"

definition deleteCode :: "nat \<Rightarrow> screen \<Rightarrow> screen" where
  "deleteCode i s =
     (case db s of
        None \<Rightarrow> s
      | Some d \<Rightarrow>
          (case eliminarCodigo i d of
             (Inl e, d1) \<Rightarrow>
               Alert_alert ''Error'' ''No se pudo eliminar el codigo''
                 (console_log ''Error eliminando codigo:'' (s\<lparr>db := Some d1\<rparr>))
           | (Inr u, d1) \<Rightarrow> snd (updateData d1 (s\<lparr>db := Some d1\<rparr>))))"

section \<open>Synchronisation with the server\<close>

text \<open>The decimal digits that a template literal prints for a length.\<close>

fun show_nat :: "nat \<Rightarrow> string" where
  "show_nat n =
     (if n < 10 then [''0123456789'' ! n]
      else show_nat (n div 10) @ [''0123456789'' ! (n mod 10)])"

declare show_nat.simps [simp del]

text \<open>
  The request built for one code by the ref-based screen (part_000:170-181) and, with its own
  \<^verbatim>\<open>API_URL\<close>, by \<^verbatim>\<open>src/app/index.tsx\<close> (lines 146-157).
\<close>

definition sync_request :: "string \<Rightarrow> ScannedCode \<Rightarrow> http_request" where
  "sync_request API_URL code =
     \<lparr>req_url = API_URL @ ''/codigos'',
      req_method = ''POST'',
      req_headers = [(''Accept'', ''application/json;encoding=utf-8''),
                 (''Content-Type'', ''application/json;encoding=utf-8'')],
      req_body = [(''data'', JString (code_data code)),
              (''type'', JString (code_type code)),
              (''timestamp'', JNumber (code_timestamp code))]\<rparr>"

text \<open>The request built by the older screen (part_000:742-752).\<close>

definition sync_request_legacy :: "string \<Rightarrow> ScannedCode \<Rightarrow> http_request" where
  "sync_request_legacy API_URL code =
     \<lparr>req_url = API_URL @ ''/codigos'',
      req_method = ''POST'',
      req_headers = [(''Accept'', ''application/json;encoding=utf-8''),
                 (''Content-Type'', ''application/json;encoding=utf-8'')],
      req_body = [(''data'', JString (code_data code)),
              (''type'', JString (code_type code))]\<rparr>"

text \<open>
  The loop \<^verbatim>\<open>for (const code of scannedCodes) await fetch(...)\<close>: one request per code, in
  list order; a rejected \<^verbatim>\<open>fetch\<close> throws out of the loop.
\<close>

fun send_codes ::
  "(ScannedCode \<Rightarrow> http_request) \<Rightarrow> network \<Rightarrow> nat \<Rightarrow> ScannedCode list \<Rightarrow> screen
     \<Rightarrow> (error + unit) \<times> screen" where
  "send_codes mk net i [] s = (Inr (), s)"
| "send_codes mk net i (code # codes) s =
     (let s1 = s\<lparr>fetches := fetches s @ [mk code]\<rparr>
      in case net i (mk code) of
           Rejected \<Rightarrow> (Inl NetworkError, s1)
         | Resolved status \<Rightarrow> send_codes mk net (Suc i) codes s1)"

text \<open>
  \<^verbatim>\<open>syncWithServer\<close> of the ref-based screen (part_000:149-193) and of
  \<^verbatim>\<open>src/app/index.tsx\<close> (lines 125-169), which differ in \<^verbatim>\<open>API_URL\<close> only. The module
  constants \<^verbatim>\<open>isLocalMode\<close> (\<^verbatim>\<open>true\<close> in the sources) and \<^verbatim>\<open>API_URL\<close> are parameters.
\<close>

definition syncWithServer :: "bool \<Rightarrow> string \<Rightarrow> network \<Rightarrow> int \<Rightarrow> screen \<Rightarrow> screen" where
  "syncWithServer isLocalMode API_URL net now s =
     (if scannedCodes s = [] then
        Alert_alert ''Sincronizacion'' ''No hay codigos para sincronizar'' s
      else
        let s1 = s\<lparr>isSyncing := True\<rparr>
        in if isLocalMode then
             setTimeout
               (LocalModeAlert
                  (''Estas trabajando en modo local. Tienes ''
                     @ show_nat (length (scannedCodes s))
                     @ '' codigos almacenados localmente.''))
               500 now s1
           else
             let (r, s2) = send_codes (sync_request API_URL) net 0 (scannedCodes s) s1;
                 s3 = (case r of
                         Inr u \<Rightarrow>
                           Alert_alert ''Sincronizacion Exitosa''
                             (''Se han sincronizado '' @ show_nat (length (scannedCodes s))
                                @ '' codigos con el servidor'') s2
                       | Inl e \<Rightarrow>
                           Alert_alert ''Error de Sincronizacion''
                             ''No se pudieron sincronizar los codigos. Verifica tu conexion.''
                             (console_log ''Error al sincronizar:'' s2))
             in s3\<lparr>isSyncing := False\<rparr>)"

text \<open>\<^verbatim>\<open>syncWithServer\<close> of the older screen (part_000:714-773).\<close>

definition syncWithServer_legacy ::
  "bool \<Rightarrow> string \<Rightarrow> network \<Rightarrow> int \<Rightarrow> screen \<Rightarrow> screen" where
  "syncWithServer_legacy isLocalMode API_URL net now s =
     (if scannedCodes s = [] then
        Alert_alert ''Sincronizacion'' ''No hay codigos para sincronizar'' s
      else
        let s1 = s\<lparr>isSyncing := True\<rparr>
        in if isLocalMode then
             setTimeout
               (LocalModeAlert
                  (''Estas trabajando en modo local. ''
                     @ ''La sincronizacion con el servidor no esta disponible.''))
               500 now s1
           else
             let (r, s2) = send_codes (sync_request_legacy API_URL) net 0 (scannedCodes s) s1;
                 s3 = (case r of
                         Inr u \<Rightarrow>
                           Alert_alert ''Sincronizacion Exitosa''
                             (''Se han sincronizado '' @ show_nat (length (scannedCodes s))
                                @ '' codigos con el servidor'') s2
                       | Inl e \<Rightarrow>
                           Alert_alert ''Error de Sincronizacion''
                             ''No se pudieron sincronizar los codigos. Verifica tu conexion.''
                             (console_log ''Error al sincronizar:'' s2))
             in s3\<lparr>isSyncing := False\<rparr>)"

section \<open>Predicates and inputs of the statements\<close>

text \<open>
  An event that is no decode event, or a decode event carrying payload \<open>p\<close> at a time
  less than \<open>SCAN_COOLDOWN\<close> after \<open>t0\<close>.
\<close>

definition in_window :: "string \<Rightarrow> int \<Rightarrow> event \<Rightarrow> bool" where
  "in_window p t0 e =
     (case e of Decode r t \<Rightarrow> result_data r = p \<and> t - t0 < SCAN_COOLDOWN | _ \<Rightarrow> True)"

text \<open>The outcome of an event is a rejection when it is a decode event, and none otherwise.\<close>

definition rejected :: "event \<Rightarrow> decision option \<Rightarrow> bool" where
  "rejected e d =
     (case e of Decode r t \<Rightarrow> d = Some RejectDuplicate \<or> d = Some RejectBusy | _ \<Rightarrow> d = None)"

text \<open>A decode event that arrives before any scheduled unlocking of screen \<open>s\<close> is due.\<close>

definition decode_while_locked :: "screen \<Rightarrow> event \<Rightarrow> bool" where
  "decode_while_locked s e =
     (case e of
        Decode r t \<Rightarrow> (\<forall>(due, act) \<in> set (timers s). act = Unlock \<longrightarrow> t < due)
      | _ \<Rightarrow> False)"

text \<open>The records held by the store of a screen (none without a connection).\<close>

definition stored :: "screen \<Rightarrow> ScannedCode list" where
  "stored s = (case db s of None \<Rightarrow> [] | Some d \<Rightarrow> records d)"

text \<open>No database connection, or a store whose existence check or insertion fails.\<close>

definition persistence_unavailable :: "screen \<Rightarrow> bool" where
  "persistence_unavailable s =
     (case db s of None \<Rightarrow> True | Some d \<Rightarrow> fails OpExists d \<or> fails OpInsert d)"

definition qr_ABC123 :: scan_result where
  "qr_ABC123 = \<lparr>result_data = ''ABC123'', result_type = ''qr''\<rparr>"

definition other_code :: scan_result where
  "other_code = \<lparr>result_data = ''XYZ-9'', result_type = ''code128''\<rparr>"

definition connected_screen :: screen where
  "connected_screen = initial_screen\<lparr>db := Some empty_db\<rparr>"

definition broken_screen :: screen where
  "broken_screen = initial_screen\<lparr>db := Some (empty_db\<lparr>failing := [OpInsert]\<rparr>)\<rparr>"

text \<open>The record that an insertion of the scanned code at time \<open>now\<close> adds to store \<open>d\<close>.\<close>

definition new_code :: "scan_result \<Rightarrow> int \<Rightarrow> Database \<Rightarrow> ScannedCode" where
  "new_code r now d =
     \<lparr>code_id = next_id d, code_data = result_data r, code_type = result_type r,
      code_timestamp = now\<rparr>"

text \<open>The store holds a record with the payload of the scan.\<close>

definition known :: "scan_result \<Rightarrow> Database \<Rightarrow> bool" where
  "known r d = (\<exists>c \<in> set (records d). code_data c = result_data r)"

text \<open>The alert of a failed synchronisation, and the text of the local-mode alert.\<close>

definition sync_error_alert :: "string \<times> string" where
  "sync_error_alert =
     (''Error de Sincronizacion'',
      ''No se pudieron sincronizar los codigos. Verifica tu conexion.'')"

definition local_mode_message :: "nat \<Rightarrow> string" where
  "local_mode_message n =
     ''Estas trabajando en modo local. Tienes '' @ show_nat n
       @ '' codigos almacenados localmente.''"

text \<open>A network whose \<open>k\<close>-th request fails, and one that never fails.\<close>

definition fails_at :: "nat \<Rightarrow> network" where
  "fails_at k i rq = (if i = k then Rejected else Resolved 200)"

definition always_ok :: network where
  "always_ok i rq = Resolved 200"

definition three_codes :: "ScannedCode list" where
  "three_codes =
     [\<lparr>code_id = 2, code_data = ''C-3'', code_type = ''aztec'', code_timestamp = 30000\<rparr>,
      \<lparr>code_id = 1, code_data = ''B-2'', code_type = ''code128'', code_timestamp = 20000\<rparr>,
      \<lparr>code_id = 0, code_data = ''ABC123'', code_type = ''qr'', code_timestamp = 10000\<rparr>]"

definition screen_with :: "ScannedCode list \<Rightarrow> screen" where
  "screen_with cs = initial_screen\<lparr>scannedCodes := cs\<rparr>"

text \<open>A store that holds one record and whose list read fails.\<close>

definition unreadable_db :: Database where
  "unreadable_db =
     \<lparr>records = [\<lparr>code_id = 0, code_data = ''ABC123'', code_type = ''qr'',
                   code_timestamp = 10000\<rparr>],
      next_id = 1, failing = [OpRead], calls = []\<rparr>"

text \<open>The store after one more insertion of payload \<^verbatim>\<open>ABC123\<close> of type \<^verbatim>\<open>qr\<close>.\<close>

definition insert_ABC123 :: "int \<Rightarrow> Database \<Rightarrow> Database" where
  "insert_ABC123 now d = snd (insertarCodigo ''ABC123'' ''qr'' now d)"

text \<open>
  The ref-based screen after \<^verbatim>\<open>ABC123\<close> was accepted at 10000 and stored at 10100, and
  accepted again at 20000, with the store calls of the second handler still pending; and the
  store it then holds.
\<close>

definition rescanned_screen :: screen where
  "rescanned_screen =
     snd (run [Decode qr_ABC123 10000, Settle 10100, Decode qr_ABC123 20000] connected_screen)"

definition one_code_db :: Database where
  "one_code_db =
     \<lparr>records = [\<lparr>code_id = 0, code_data = ''ABC123'', code_type = ''qr'',
                   code_timestamp = 10100\<rparr>],
      next_id = 1, failing = [], calls = [OpExists, OpInsert, OpRead, OpStats]\<rparr>"

section \<open>Auxiliary lemmas\<close>

lemmas effect_defs = console_log_def Alert_alert_def setTimeout_def

lemmas store_defs = existeCodigo_def insertarCodigo_def consultarCodigos_def
  eliminarCodigo_def limpiarCodigos_def obtenerEstadisticas_def attempt_def

lemmas eval_defs = onBarcodeScanned_def onBarcodeScanned_settle_def onBarcodeScanned_try_def
  updateData_def fire_timers_def initial_screen_def empty_db_def SCAN_COOLDOWN_def
  PROCESSING_TIMEOUT_def computeStats_def fails_def Let_def effect_defs store_defs
  showNotification_def native_platform_def

lemmas sync_eval_defs = syncWithServer_def sync_request_def initial_screen_def effect_defs
  Let_def

lemma showNotification_fields:
  "lastScannedCode (showNotification m s) = lastScannedCode s"
  "lastScannedTime (showNotification m s) = lastScannedTime s"
  "isProcessingRef (showNotification m s) = isProcessingRef s"
  "timers (showNotification m s) = timers s"
  "pending (showNotification m s) = pending s"
  "db (showNotification m s) = db s"
  "platform_env (showNotification m s) = platform_env s"
  by (simp_all add: showNotification_def effect_defs Let_def split: sum.split)

lemma updateData_dedup:
  "lastScannedCode (snd (updateData d s)) = lastScannedCode s
   \<and> lastScannedTime (snd (updateData d s)) = lastScannedTime s
   \<and> isProcessingRef (snd (updateData d s)) = isProcessingRef s
   \<and> timers (snd (updateData d s)) = timers s
   \<and> pending (snd (updateData d s)) = pending s"
  by (simp add: updateData_def effect_defs store_defs)

lemma scan_try_dedup:
  "lastScannedCode (snd (onBarcodeScanned_try r now s)) = lastScannedCode s
   \<and> lastScannedTime (snd (onBarcodeScanned_try r now s)) = lastScannedTime s
   \<and> isProcessingRef (snd (onBarcodeScanned_try r now s)) = isProcessingRef s
   \<and> timers (snd (onBarcodeScanned_try r now s)) = timers s
   \<and> pending (snd (onBarcodeScanned_try r now s)) = pending s"
  by (simp add: onBarcodeScanned_try_def updateData_dedup showNotification_fields
                effect_defs store_defs Let_def
           split: option.split)

lemma scan_settle_dedup:
  "lastScannedCode (onBarcodeScanned_settle now s) = lastScannedCode s
   \<and> lastScannedTime (onBarcodeScanned_settle now s) = lastScannedTime s
   \<and> isProcessingRef (onBarcodeScanned_settle now s) = isProcessingRef s"
proof (cases "pending s")
  case None
  then show ?thesis by (simp add: onBarcodeScanned_settle_def)
next
  case (Some r)
  obtain e s1 where t: "onBarcodeScanned_try r now (s\<lparr>pending := None\<rparr>) = (e, s1)"
    by (cases "onBarcodeScanned_try r now (s\<lparr>pending := None\<rparr>)")
  from scan_try_dedup [of r now "s\<lparr>pending := None\<rparr>"] t
  have "lastScannedCode s1 = lastScannedCode s \<and> lastScannedTime s1 = lastScannedTime s
        \<and> isProcessingRef s1 = isProcessingRef s"
    by simp
  then show ?thesis
    by (simp add: onBarcodeScanned_settle_def Some t effect_defs split: sum.split)
qed

lemma scan_settle_timers:
  "pending s = Some r \<Longrightarrow>
   timers (onBarcodeScanned_settle now s) = timers s @ [(now + PROCESSING_TIMEOUT, Unlock)]
   \<and> pending (onBarcodeScanned_settle now s) = None"
proof -
  assume p: "pending s = Some r"
  obtain e s1 where t: "onBarcodeScanned_try r now (s\<lparr>pending := None\<rparr>) = (e, s1)"
    by (cases "onBarcodeScanned_try r now (s\<lparr>pending := None\<rparr>)")
  from scan_try_dedup [of r now "s\<lparr>pending := None\<rparr>"] t
  have "timers s1 = timers s \<and> pending s1 = None"
    by simp
  then show ?thesis
    by (simp add: onBarcodeScanned_settle_def p t effect_defs split: sum.split)
qed

lemma foldl_run_timer_fields:
  "lastScannedCode (foldl (\<lambda>s' act. run_timer act s') s acts) = lastScannedCode s
   \<and> lastScannedTime (foldl (\<lambda>s' act. run_timer act s') s acts) = lastScannedTime s
   \<and> timers (foldl (\<lambda>s' act. run_timer act s') s acts) = timers s
   \<and> pending (foldl (\<lambda>s' act. run_timer act s') s acts) = pending s
   \<and> db (foldl (\<lambda>s' act. run_timer act s') s acts) = db s
   \<and> isProcessingRef (foldl (\<lambda>s' act. run_timer act s') s acts)
       = (isProcessingRef s \<and> Unlock \<notin> set acts)"
proof (induction acts arbitrary: s)
  case Nil
  show ?case by simp
next
  case (Cons a acts)
  show ?case by (cases a) (auto simp: Cons.IH effect_defs)
qed

lemma fire_timers_fields:
  "lastScannedCode (fire_timers now s) = lastScannedCode s"
  "lastScannedTime (fire_timers now s) = lastScannedTime s"
  "pending (fire_timers now s) = pending s"
  "db (fire_timers now s) = db s"
  "timers (fire_timers now s) = filter (\<lambda>(due, act). \<not> due \<le> now) (timers s)"
  by (simp_all add: fire_timers_def foldl_run_timer_fields)

lemma fire_timers_flag:
  "isProcessingRef (fire_timers now s)
     = (isProcessingRef s \<and> (\<forall>(due, act) \<in> set (timers s). act = Unlock \<longrightarrow> now < due))"
  by (force simp: fire_timers_def foldl_run_timer_fields)

lemma busy_decision:
  "isProcessingRef s \<Longrightarrow>
   onBarcodeScanned result t s
     = (RejectBusy, console_log ''Escaneo ignorado: ya procesando'' s)"
  by (simp add: onBarcodeScanned_def)

lemma accept_state:
  assumes "onBarcodeScanned r0 t0 s = (Accept, s')"
  shows "lastScannedCode s' = result_data r0" and "lastScannedTime s' = t0"
    and "isProcessingRef s'" and "\<not> isProcessingRef s"
    and "db s' = db s"
    and "db s \<noteq> None \<Longrightarrow> pending s' = Some r0"
    and "db s \<noteq> None \<Longrightarrow> timers s' = timers s"
  using assms
  by (auto simp: onBarcodeScanned_def Let_def effect_defs scan_settle_dedup
                 onBarcodeScanned_settle_def onBarcodeScanned_try_def
           split: if_splits)

text \<open>A decode event of the accepted payload inside the cooldown window is rejected and
  leaves the last-accepted pair as it is.\<close>

lemma repeat_rejected:
  assumes "lastScannedCode s = result_data r" and "t - lastScannedTime s < SCAN_COOLDOWN"
  shows "fst (onBarcodeScanned r t s) \<in> {RejectBusy, RejectDuplicate}"
    and "lastScannedCode (snd (onBarcodeScanned r t s)) = lastScannedCode s"
    and "lastScannedTime (snd (onBarcodeScanned r t s)) = lastScannedTime s"
    and "db (snd (onBarcodeScanned r t s)) = db s"
  using assms by (simp_all add: onBarcodeScanned_def effect_defs)

lemma step_in_window:
  assumes "lastScannedCode s = p" and "lastScannedTime s = t0" and "in_window p t0 e"
  shows "rejected e (fst (step e s))
         \<and> lastScannedCode (snd (step e s)) = p \<and> lastScannedTime (snd (step e s)) = t0"
proof (cases e)
  case (Decode r t)
  let ?s0 = "fire_timers t s"
  have a: "lastScannedCode ?s0 = result_data r" "t - lastScannedTime ?s0 < SCAN_COOLDOWN"
    using assms Decode by (simp_all add: in_window_def fire_timers_fields)
  from repeat_rejected [OF a] assms(1,2) show ?thesis
    by (auto simp: Decode rejected_def fire_timers_fields split: prod.split)
next
  case (Settle t)
  then show ?thesis
    using assms(1,2) by (simp add: rejected_def scan_settle_dedup fire_timers_fields)
next
  case (Tick t)
  then show ?thesis
    using assms(1,2) by (simp add: rejected_def fire_timers_fields)
qed

lemma run_in_window:
  "lastScannedCode s = p \<Longrightarrow> lastScannedTime s = t0 \<Longrightarrow> \<forall>e \<in> set evs. in_window p t0 e \<Longrightarrow>
   list_all2 rejected evs (fst (run evs s))"
proof (induction evs arbitrary: s)
  case Nil
  then show ?case by simp
next
  case (Cons e evs)
  obtain d s1 where st: "step e s = (d, s1)" by (cases "step e s")
  from step_in_window [of s p t0 e] Cons.prems st
  have h: "rejected e d" "lastScannedCode s1 = p" "lastScannedTime s1 = t0"
    by simp_all
  from Cons.IH [OF h(2,3)] Cons.prems(3) have "list_all2 rejected evs (fst (run evs s1))"
    by simp
  with h(1) show ?case
    by (cases "run evs s1") (simp add: st)
qed


lemma settled_then_unlocked:
  assumes "pending s = Some r0" and "ts + PROCESSING_TIMEOUT \<le> u"
  shows "\<not> isProcessingRef (fire_timers u (onBarcodeScanned_settle ts (fire_timers ts s)))"
proof -
  have "pending (fire_timers ts s) = Some r0"
    using assms(1) by (simp add: fire_timers_fields)
  from scan_settle_timers [OF this, of ts]
  have "(ts + PROCESSING_TIMEOUT, Unlock) \<in> set (timers (onBarcodeScanned_settle ts (fire_timers ts s)))"
    by simp
  with assms(2) show ?thesis
    by (force simp: fire_timers_flag)
qed

lemma accept_without_db:
  assumes "onBarcodeScanned r0 t0 s = (Accept, s')" and "db s = None"
  shows "pending s' = None" and "(t0 + PROCESSING_TIMEOUT, Unlock) \<in> set (timers s')"
proof -
  have np: "\<not> isProcessingRef s"
    using accept_state(4) [OF assms(1)] .
  define s2 where "s2 = (console_log (''Procesando escaneo: '' @ result_data r0)
                   (s\<lparr>isProcessingRef := True, lastScannedCode := result_data r0,
                      lastScannedTime := t0\<rparr>))\<lparr>pending := Some r0\<rparr>"
  have "s' = onBarcodeScanned_settle t0 s2"
    using assms(1,2) np
    by (auto simp: onBarcodeScanned_def Let_def s2_def console_log_def split: if_splits)
  moreover have "pending s2 = Some r0" by (simp add: s2_def)
  ultimately show "pending s' = None" and "(t0 + PROCESSING_TIMEOUT, Unlock) \<in> set (timers s')"
    using scan_settle_timers [of s2 r0 t0] by simp_all
qed


lemma scan_try_unavailable:
  "persistence_unavailable s \<Longrightarrow> stored (snd (onBarcodeScanned_try r now s)) = stored s"
  by (auto simp: onBarcodeScanned_try_def persistence_unavailable_def stored_def
                 showNotification_fields effect_defs store_defs fails_def Let_def
           split: option.splits)

lemma scan_settle_unavailable:
  assumes "persistence_unavailable s"
  shows "stored (onBarcodeScanned_settle now s) = stored s"
proof (cases "pending s")
  case None
  then show ?thesis by (simp add: onBarcodeScanned_settle_def)
next
  case (Some r)
  let ?s0 = "s\<lparr>pending := None\<rparr>"
  obtain e s1 where t: "onBarcodeScanned_try r now ?s0 = (e, s1)"
    by (cases "onBarcodeScanned_try r now ?s0")
  have "persistence_unavailable ?s0" "stored ?s0 = stored s"
    using assms by (simp_all add: persistence_unavailable_def stored_def)
  with scan_try_unavailable [of ?s0 r now] t have "stored s1 = stored s"
    by simp
  then show ?thesis
    by (simp add: onBarcodeScanned_settle_def Some t effect_defs stored_def split: sum.split)
qed

lemma fire_timers_stored: "stored (fire_timers now s) = stored s"
  by (simp add: stored_def fire_timers_fields)

lemma due_then_unlocked:
  "(due, Unlock) \<in> set (timers s) \<Longrightarrow> due \<le> t \<Longrightarrow>
   \<not> isProcessingRef (fire_timers t (fire_timers ts s))"
  by (force simp: fire_timers_flag fire_timers_fields)

lemma updateData_read_fails:
  "fails OpRead d \<Longrightarrow>
   updateData d s
     = (Inr (), s\<lparr>db := Some (attempt OpRead d),
                  console := console s @ [''Error actualizando datos:'']\<rparr>)"
  by (simp add: updateData_def consultarCodigos_def console_log_def)

lemma updateData_stats_fails:
  "\<not> fails OpRead d \<Longrightarrow> fails OpStats d \<Longrightarrow>
   updateData d s
     = (Inr (), s\<lparr>db := Some (attempt OpStats (attempt OpRead d)),
                  console := console s @ [''Error actualizando datos:'']\<rparr>)"
  by (simp add: updateData_def consultarCodigos_def obtenerEstadisticas_def console_log_def
                fails_def attempt_def)

lemma settle_exists_fails:
  assumes "pending s = Some r" and "db s = Some d" and "fails OpExists d"
  shows "onBarcodeScanned_settle now s
     = s\<lparr>pending := None, db := Some (attempt OpExists d),
         console := console s @ [''Error procesando escaneo:''],
         alerts := alerts s @ [(''Error'', ''No se pudo procesar el codigo escaneado'')],
         timers := timers s @ [(now + PROCESSING_TIMEOUT, Unlock)]\<rparr>"
  using assms
  by (simp add: onBarcodeScanned_settle_def onBarcodeScanned_try_def existeCodigo_def effect_defs)

lemma settle_insert_fails:
  assumes "pending s = Some r" and "db s = Some d" and "\<not> fails OpExists d"
    and "\<not> known r d" and "fails OpInsert d"
  shows "onBarcodeScanned_settle now s
     = setTimeout Unlock PROCESSING_TIMEOUT now
         (Alert_alert ''Error'' ''No se pudo procesar el codigo escaneado''
            (console_log ''Error procesando escaneo:''
               ((showNotification (''Nuevo codigo escaneado: '' @ result_data r)
                   (s\<lparr>pending := None, db := Some (attempt OpExists d)\<rparr>))
                \<lparr>db := Some (attempt OpInsert (attempt OpExists d))\<rparr>)))"
  using assms
  by (simp add: onBarcodeScanned_settle_def onBarcodeScanned_try_def existeCodigo_def
        insertarCodigo_def known_def fails_def attempt_def Let_def)

lemma settle_known:
  assumes "pending s = Some r" and "db s = Some d" and "\<not> fails OpExists d" and "known r d"
  shows "onBarcodeScanned_settle now s
     = setTimeout Unlock PROCESSING_TIMEOUT now
         (showNotification (''Codigo ya escaneado: '' @ result_data r)
            (s\<lparr>pending := None, db := Some (attempt OpExists d)\<rparr>))"
  using assms
  by (simp add: onBarcodeScanned_settle_def onBarcodeScanned_try_def existeCodigo_def
        known_def Let_def)

lemma updateData_working:
  "failing d = [] \<Longrightarrow>
   updateData d s
     = (Inr (), s\<lparr>db := Some (attempt OpStats (attempt OpRead d)),
                  scannedCodes := records d, stats := computeStats (records d)\<rparr>)"
  by (simp add: updateData_def consultarCodigos_def obtenerEstadisticas_def
                fails_def attempt_def)

lemma settle_unknown:
  assumes "pending s = Some r" and "db s = Some d" and "failing d = []" and "\<not> known r d"
  shows "stored (onBarcodeScanned_settle now s) = new_code r now d # records d"
  using assms
  by (simp add: onBarcodeScanned_settle_def onBarcodeScanned_try_def existeCodigo_def
        insertarCodigo_def updateData_working showNotification_fields effect_defs
        known_def fails_def attempt_def Let_def new_code_def stored_def)

lemma settle_notifies:
  assumes "pending s = Some r" and "db s = Some d" and "failing d = []"
    and "\<not> is_web (platform_env s)" and "delivers (platform_env s)"
  shows "notifications (onBarcodeScanned_settle now s)
     = notifications s
         @ [(if known r d then ''Codigo ya escaneado: '' else ''Nuevo codigo escaneado: '')
              @ result_data r]"
  using assms
  by (simp add: onBarcodeScanned_settle_def onBarcodeScanned_try_def existeCodigo_def
        insertarCodigo_def updateData_working showNotification_def effect_defs
        known_def fails_def attempt_def Let_def)

lemma scanning_fields:
  "isScanning (showNotification m s) = isScanning s"
  "isScanning_seen (showNotification m s) = isScanning_seen s"
  "isScanning (snd (updateData d s)) = isScanning s"
  "isScanning_seen (snd (updateData d s)) = isScanning_seen s"
  by (simp_all add: showNotification_def updateData_def effect_defs store_defs Let_def
        split: sum.split)

text \<open>
  The guard of the state-based handler reads the value of the last render: a handler that
  ran leaves the state false and its own closure unchanged, and only after a render does the
  next event return at the guard.
\<close>

lemma index_guard_reads_last_render:
  assumes "isScanning_seen s"
  shows "isScanning_seen (snd (onBarcodeScanned_index r now s))"
    and "\<not> isScanning (snd (onBarcodeScanned_index r now s))"
    and "onBarcodeScanned_index r' now' (render (snd (onBarcodeScanned_index r now s)))
           = (Inr (), render (snd (onBarcodeScanned_index r now s)))"
proof -
  show a: "isScanning_seen (snd (onBarcodeScanned_index r now s))"
    using assms
    by (simp add: onBarcodeScanned_index_def scanning_fields setTimeout_def Let_def
          split: option.split prod.split sum.split)
  show b: "\<not> isScanning (snd (onBarcodeScanned_index r now s))"
    using assms
    by (simp add: onBarcodeScanned_index_def scanning_fields setTimeout_def Let_def
          split: option.split prod.split sum.split)
  from b show "onBarcodeScanned_index r' now' (render (snd (onBarcodeScanned_index r now s)))
           = (Inr (), render (snd (onBarcodeScanned_index r now s)))"
    by (simp add: onBarcodeScanned_index_def [of r' now'] render_def)
qed

lemma index_inserts:
  assumes "isScanning_seen s" and "db s = Some d" and "failing d = []"
  shows "stored (snd (onBarcodeScanned_index r now s)) = new_code r now d # records d"
  using assms
  by (simp add: onBarcodeScanned_index_def insertarCodigo_def showNotification_fields
        updateData_def consultarCodigos_def obtenerEstadisticas_def setTimeout_def
        fails_def attempt_def Let_def stored_def new_code_def)

lemma index_insert_fails:
  assumes "isScanning_seen s" and "db s = Some d" and "fails OpInsert d"
  shows "onBarcodeScanned_index r now s
     = (Inl StorageError,
        (showNotification (''Codigo escaneado: '' @ result_data r)
           (setTimeout ResumeScanning 1000 now (s\<lparr>isScanning := False\<rparr>)))
        \<lparr>db := Some (attempt OpInsert d)\<rparr>)"
  using assms
  by (simp add: onBarcodeScanned_index_def insertarCodigo_def showNotification_fields
        setTimeout_def Let_def)

lemma index_read_fails:
  assumes "isScanning_seen s" and "db s = Some d" and "\<not> fails OpInsert d"
    and "fails OpRead d"
  shows "onBarcodeScanned_index r now s
     = (Inl StorageError,
        (showNotification (''Codigo escaneado: '' @ result_data r)
           (setTimeout ResumeScanning 1000 now (s\<lparr>isScanning := False\<rparr>)))
        \<lparr>db := Some (attempt OpRead
                       (snd (insertarCodigo (result_data r) (result_type r) now d)))\<rparr>)"
  using assms
  by (simp add: onBarcodeScanned_index_def insertarCodigo_def consultarCodigos_def
        showNotification_fields setTimeout_def fails_def attempt_def Let_def)

lemma legacy_read_fails:
  assumes "isScanning_seen s" and "db s = Some d" and "\<not> fails OpInsert d"
    and "fails OpRead d"
  shows "onBarcodeScanned_legacy r now s
     = (Inl StorageError,
        (showNotification (''Codigo escaneado: '' @ result_data r) (s\<lparr>isScanning := False\<rparr>))
        \<lparr>db := Some (attempt OpRead
                       (snd (insertarCodigo (result_data r) (result_type r) now d)))\<rparr>)"
  using assms
  by (simp add: onBarcodeScanned_legacy_def insertarCodigo_def consultarCodigos_def
        showNotification_fields fails_def attempt_def Let_def)

lemma legacy_insert_fails:
  assumes "isScanning_seen s" and "db s = Some d" and "fails OpInsert d"
  shows "onBarcodeScanned_legacy r now s
     = (Inl StorageError,
        (showNotification (''Codigo escaneado: '' @ result_data r) (s\<lparr>isScanning := False\<rparr>))
        \<lparr>db := Some (attempt OpInsert d)\<rparr>)"
  using assms
  by (simp add: onBarcodeScanned_legacy_def insertarCodigo_def showNotification_fields
        Let_def)

lemma delete_fails:
  assumes "db s = Some d" and "fails OpDelete d"
  shows "deleteCode i s
     = s\<lparr>db := Some (attempt OpDelete d),
         console := console s @ [''Error eliminando codigo:''],
         alerts := alerts s @ [(''Error'', ''No se pudo eliminar el codigo'')]\<rparr>"
  using assms by (simp add: deleteCode_def eliminarCodigo_def effect_defs)

lemma clear_fails:
  assumes "db s = Some d" and "fails OpClear d"
  shows "clearScannedCodes_onPress s
     = s\<lparr>db := Some (attempt OpClear d),
         console := console s @ [''Error limpiando codigos:''],
         alerts := alerts s @ [(''Error'', ''No se pudo limpiar el historial'')]\<rparr>"
  using assms by (simp add: clearScannedCodes_onPress_def limpiarCodigos_def effect_defs)

lemma send_codes_fail:
  "k < length codes \<Longrightarrow> \<forall>j<k. net (i + j) (mk (codes ! j)) \<noteq> Rejected \<Longrightarrow>
   net (i + k) (mk (codes ! k)) = Rejected \<Longrightarrow>
   send_codes mk net i codes s
     = (Inl NetworkError, s\<lparr>fetches := fetches s @ map mk (take (Suc k) codes)\<rparr>)"
proof (induction codes arbitrary: i k s)
  case Nil
  then show ?case by simp
next
  case (Cons c codes)
  show ?case
  proof (cases k)
    case 0
    with Cons.prems show ?thesis by (simp add: Let_def)
  next
    case (Suc k')
    from Cons.prems(2) Suc have "net i (mk c) \<noteq> Rejected" by force
    then obtain st where r: "net i (mk c) = Resolved st" by (cases "net i (mk c)") auto
    have a: "k' < length codes" using Cons.prems(1) Suc by simp
    have b: "\<forall>j<k'. net (Suc i + j) (mk (codes ! j)) \<noteq> Rejected"
      using Cons.prems(2) Suc by force
    have c: "net (Suc i + k') (mk (codes ! k')) = Rejected"
      using Cons.prems(3) Suc by simp
    from Cons.IH [OF a b c] show ?thesis
      by (simp add: r Suc Let_def)
  qed
qed

lemma send_codes_ok:
  "\<forall>j<length codes. net (i + j) (mk (codes ! j)) \<noteq> Rejected \<Longrightarrow>
   send_codes mk net i codes s = (Inr (), s\<lparr>fetches := fetches s @ map mk codes\<rparr>)"
proof (induction codes arbitrary: i s)
  case Nil
  show ?case by simp
next
  case (Cons c codes)
  from Cons.prems have "net i (mk c) \<noteq> Rejected" by force
  then obtain st where r: "net i (mk c) = Resolved st" by (cases "net i (mk c)") auto
  have b: "\<forall>j<length codes. net (Suc i + j) (mk (codes ! j)) \<noteq> Rejected"
    using Cons.prems by force
  from Cons.IH [OF b] show ?case
    by (simp add: r Let_def)
qed

lemma send_codes_prefix:
  "\<exists>n\<le>length codes.
     snd (send_codes mk net i codes s) = s\<lparr>fetches := fetches s @ map mk (take n codes)\<rparr>"
proof (induction codes arbitrary: i s)
  case Nil
  show ?case by simp
next
  case (Cons c codes)
  show ?case
  proof (cases "net i (mk c)")
    case Rejected
    have "snd (send_codes mk net i (c # codes) s)
            = s\<lparr>fetches := fetches s @ map mk (take (Suc 0) (c # codes))\<rparr>"
      by (simp add: Rejected Let_def)
    then show ?thesis by (intro exI [of _ "Suc 0"]) simp
  next
    case (Resolved st)
    let ?s1 = "s\<lparr>fetches := fetches s @ [mk c]\<rparr>"
    from Cons.IH [of "Suc i" ?s1] obtain n where n: "n \<le> length codes"
      "snd (send_codes mk net (Suc i) codes ?s1)
         = ?s1\<lparr>fetches := fetches ?s1 @ map mk (take n codes)\<rparr>"
      by blast
    have "snd (send_codes mk net i (c # codes) s)
            = s\<lparr>fetches := fetches s @ map mk (take (Suc n) (c # codes))\<rparr>"
      using n(2) by (simp add: Resolved Let_def)
    with n(1) show ?thesis by (intro exI [of _ "Suc n"]) simp
  qed
qed

section \<open>The cooldown window\<close>

text \<open>
  Claim C1. Let a decode event \<open>r0\<close> be accepted at time \<open>t0\<close>. The screen then holds the
  payload and \<open>t0\<close> as the last-accepted pair and has the processing flag set; and in every
  sequence of later events whose decode events carry the same payload at times less than
  \<open>SCAN_COOLDOWN\<close> (3000 ms) after \<open>t0\<close>, however the settling of the store calls and the
  passing of time are interleaved, each decode event is answered \<open>RejectDuplicate\<close> or
  \<open>RejectBusy\<close>: the first event is the only one accepted.
\<close>

theorem cooldown_accepts_first_only:
  assumes "onBarcodeScanned r0 t0 s = (Accept, s')"
      and "\<forall>e \<in> set evs. in_window (result_data r0) t0 e"
  shows "lastScannedCode s' = result_data r0 \<and> lastScannedTime s' = t0 \<and> isProcessingRef s'
         \<and> list_all2 rejected evs (fst (run evs s'))"
  using accept_state(1,2,3) [OF assms(1)] run_in_window [OF _ _ assms(2), of s']
  by simp

theorem cooldown_accepts_first_only_witness:
  "fst (onBarcodeScanned qr_ABC123 10000 connected_screen) = Accept
   \<and> list_all (in_window (result_data qr_ABC123) 10000)
        [Decode qr_ABC123 10400, Settle 10500, Decode qr_ABC123 11600, Decode qr_ABC123 12999]
   \<and> lastScannedCode (snd (onBarcodeScanned qr_ABC123 10000 connected_screen)) = ''ABC123''
   \<and> lastScannedTime (snd (onBarcodeScanned qr_ABC123 10000 connected_screen)) = 10000
   \<and> list_all2 rejected
        [Decode qr_ABC123 10400, Settle 10500, Decode qr_ABC123 11600, Decode qr_ABC123 12999]
        (fst (run [Decode qr_ABC123 10400, Settle 10500, Decode qr_ABC123 11600,
                   Decode qr_ABC123 12999]
                (snd (onBarcodeScanned qr_ABC123 10000 connected_screen))))"
proof -
  let ?s' = "snd (onBarcodeScanned qr_ABC123 10000 connected_screen)"
  let ?evs = "[Decode qr_ABC123 10400, Settle 10500, Decode qr_ABC123 11600,
               Decode qr_ABC123 12999]"
  have a: "fst (onBarcodeScanned qr_ABC123 10000 connected_screen) = Accept"
    by (simp add: eval_defs connected_screen_def qr_ABC123_def)
  then have h1: "onBarcodeScanned qr_ABC123 10000 connected_screen = (Accept, ?s')"
    by (simp add: prod_eq_iff)
  have h2: "\<forall>e \<in> set ?evs. in_window (result_data qr_ABC123) 10000 e"
    by (simp add: in_window_def SCAN_COOLDOWN_def)
  from cooldown_accepts_first_only [OF h1 h2] a h2 show ?thesis
    by (simp add: qr_ABC123_def list_all_iff)
qed

section \<open>The processing flag\<close>

text \<open>
  Claim C2. While the processing flag is set, the handler answers \<open>RejectBusy\<close> to every
  decode event, whatever its payload and timestamp and whatever the last-accepted pair is;
  and for any number of decode events arriving before an unlocking is due, every answer is
  \<open>RejectBusy\<close> and the flag is still set afterwards.
\<close>

theorem busy_rejects_every_event:
  assumes "isProcessingRef s" and "\<forall>e \<in> set evs. decode_while_locked s e"
  shows "(\<forall>result t. fst (onBarcodeScanned result t s) = RejectBusy)
         \<and> fst (run evs s) = replicate (length evs) (Some RejectBusy)
         \<and> isProcessingRef (snd (run evs s))"
proof -
  have "fst (run evs s) = replicate (length evs) (Some RejectBusy)
        \<and> isProcessingRef (snd (run evs s))"
    using assms
  proof (induction evs arbitrary: s)
    case Nil
    then show ?case by simp
  next
    case (Cons e evs)
    from Cons.prems(2) obtain result t where e: "e = Decode result t"
      and late: "\<forall>(due, act) \<in> set (timers s). act = Unlock \<longrightarrow> t < due"
      by (cases e) (auto simp: decode_while_locked_def)
    let ?s0 = "fire_timers t s"
    have busy0: "isProcessingRef ?s0"
      using Cons.prems(1) late by (simp add: fire_timers_flag)
    define s1 where "s1 = console_log ''Escaneo ignorado: ya procesando'' ?s0"
    have st: "step e s = (Some RejectBusy, s1)"
      by (simp add: e busy_decision [OF busy0] s1_def)
    have busy1: "isProcessingRef s1"
      using busy0 by (simp add: s1_def console_log_def)
    have sub: "set (timers s1) \<subseteq> set (timers s)"
      by (auto simp: s1_def fire_timers_fields console_log_def)
    have rest: "\<forall>e \<in> set evs. decode_while_locked s1 e"
    proof
      fix e' assume "e' \<in> set evs"
      with Cons.prems(2) have "decode_while_locked s e'" by simp
      with sub show "decode_while_locked s1 e'"
        by (cases e') (auto simp: decode_while_locked_def)
    qed
    from Cons.IH [OF busy1 rest] show ?case
      by (cases "run evs s1") (simp add: st)
  qed
  with assms(1) show ?thesis
    by (simp add: busy_decision)
qed

theorem busy_rejects_every_event_witness:
  "isProcessingRef (snd (onBarcodeScanned qr_ABC123 10000 connected_screen))
   \<and> list_all (decode_while_locked (snd (onBarcodeScanned qr_ABC123 10000 connected_screen)))
        [Decode qr_ABC123 10050, Decode other_code 10400, Decode other_code 99000]
   \<and> fst (onBarcodeScanned other_code 99000
            (snd (onBarcodeScanned qr_ABC123 10000 connected_screen))) = RejectBusy
   \<and> fst (run [Decode qr_ABC123 10050, Decode other_code 10400, Decode other_code 99000]
            (snd (onBarcodeScanned qr_ABC123 10000 connected_screen)))
       = [Some RejectBusy, Some RejectBusy, Some RejectBusy]"
proof -
  let ?s = "snd (onBarcodeScanned qr_ABC123 10000 connected_screen)"
  let ?evs = "[Decode qr_ABC123 10050, Decode other_code 10400, Decode other_code 99000]"
  have h1: "isProcessingRef ?s"
    by (simp add: eval_defs connected_screen_def qr_ABC123_def other_code_def)
  have h2: "\<forall>e \<in> set ?evs. decode_while_locked ?s e"
    by (simp add: decode_while_locked_def eval_defs connected_screen_def qr_ABC123_def
          other_code_def)
  from busy_rejects_every_event [OF h1 h2] h1 h2 show ?thesis
    by (simp add: numeral_3_eq_3 list_all_iff)
qed

section \<open>Release of the processing flag\<close>




section \<open>Deduplication state and persistence\<close>

text \<open>
  Claim C9. An accepted event has set the last-accepted payload, the last-accepted time and
  the processing flag before the handler touches the store (the store is as it was when the
  guards have been passed). When there is no database connection, or the existence check or
  the insertion fails, no record is stored, and still a repeat of the payload inside the
  cooldown window is rejected: as busy while the flag is set, as a duplicate once the flag
  has been released.
\<close>

theorem dedup_state_precedes_persistence:
  assumes "onBarcodeScanned r0 t0 s = (Accept, s')"
      and "persistence_unavailable s"
      and "result_data r = result_data r0" and "t - t0 < SCAN_COOLDOWN" and "t0 \<le> ts"
  shows "lastScannedCode s' = result_data r0 \<and> lastScannedTime s' = t0 \<and> isProcessingRef s'
         \<and> db s' = db s
         \<and> (fst (run [Settle ts, Decode r t] s') = [None, Some RejectBusy]
            \<or> fst (run [Settle ts, Decode r t] s') = [None, Some RejectDuplicate])
         \<and> (ts + PROCESSING_TIMEOUT \<le> t \<longrightarrow>
              fst (run [Settle ts, Decode r t] s') = [None, Some RejectDuplicate])
         \<and> stored (snd (run [Settle ts, Decode r t] s')) = stored s"
proof -
  note acc = accept_state [OF assms(1)]
  let ?s1 = "onBarcodeScanned_settle ts (fire_timers ts s')"
  let ?s2 = "fire_timers t ?s1"
  have pair: "lastScannedCode ?s2 = result_data r" "lastScannedTime ?s2 = t0"
    using acc(1,2) assms(3) by (simp_all add: fire_timers_fields scan_settle_dedup)
  then have win: "t - lastScannedTime ?s2 < SCAN_COOLDOWN"
    using assms(4) by simp
  note rej = repeat_rejected [OF pair(1) win]
  have un': "persistence_unavailable (fire_timers ts s')"
    using assms(2) acc(5) by (simp add: persistence_unavailable_def fire_timers_fields)
  have st1: "stored ?s1 = stored s"
    using scan_settle_unavailable [OF un', of ts] acc(5)
    by (simp add: fire_timers_stored) (simp add: stored_def)
  have st: "stored (snd (onBarcodeScanned r t ?s2)) = stored s"
    using rej(4) st1 by (simp add: stored_def fire_timers_fields)
  have dup: "fst (onBarcodeScanned r t ?s2) = RejectDuplicate" if "ts + PROCESSING_TIMEOUT \<le> t"
  proof -
    have "\<not> isProcessingRef ?s2"
    proof (cases "db s")
      case None
      note nodb = accept_without_db [OF assms(1) None]
      have "pending (fire_timers ts s') = None"
        using nodb(1) by (simp add: fire_timers_fields)
      then have same: "?s1 = fire_timers ts s'"
        by (simp add: onBarcodeScanned_settle_def)
      have "t0 + PROCESSING_TIMEOUT \<le> t"
        using that assms(5) by simp
      from due_then_unlocked [OF nodb(2) this] same show ?thesis
        by simp
    next
      case (Some d)
      then have "pending s' = Some r0" using acc(6) by simp
      from settled_then_unlocked [OF this that] show ?thesis .
    qed
    with pair(1) win show ?thesis
      by (simp add: onBarcodeScanned_def)
  qed
  show ?thesis
    using acc(1,2,3,5) rej(1) st dup by (auto simp: case_prod_beta)
qed

theorem dedup_state_precedes_persistence_witness:
  "fst (onBarcodeScanned qr_ABC123 10000 broken_screen) = Accept
   \<and> persistence_unavailable broken_screen
   \<and> 12000 - 10000 < SCAN_COOLDOWN \<and> (10000::int) \<le> 10900
   \<and> 10900 + PROCESSING_TIMEOUT \<le> 12000
   \<and> fst (run [Settle 10900, Decode qr_ABC123 12000]
            (snd (onBarcodeScanned qr_ABC123 10000 broken_screen)))
       = [None, Some RejectDuplicate]
   \<and> stored (snd (run [Settle 10900, Decode qr_ABC123 12000]
                 (snd (onBarcodeScanned qr_ABC123 10000 broken_screen)))) = []"
proof -
  let ?n' = "snd (onBarcodeScanned qr_ABC123 10000 broken_screen)"
  have b: "fst (onBarcodeScanned qr_ABC123 10000 broken_screen) = Accept"
    by (simp add: eval_defs broken_screen_def qr_ABC123_def)
  then have g1: "onBarcodeScanned qr_ABC123 10000 broken_screen = (Accept, ?n')"
    by (simp add: prod_eq_iff)
  have h2: "persistence_unavailable broken_screen"
    by (simp add: persistence_unavailable_def eval_defs broken_screen_def qr_ABC123_def)
  have h3: "12000 - 10000 < SCAN_COOLDOWN" "(10000::int) \<le> 10900"
    "10900 + PROCESSING_TIMEOUT \<le> 12000"
    by (simp_all add: SCAN_COOLDOWN_def PROCESSING_TIMEOUT_def)
  have e: "stored broken_screen = []"
    by (simp add: stored_def eval_defs broken_screen_def qr_ABC123_def)
  from dedup_state_precedes_persistence [OF g1 h2 refl h3(1,2)] b h2 h3 e
  show ?thesis by simp
qed

section \<open>Rejected events\<close>

text \<open>
  Claim C10. A decode event that is rejected, as busy or as a duplicate, leaves the screen
  and its collaborators as they were: the deduplication state, the store, the displayed
  codes and statistics, the timers, the notifications and the alerts are unchanged. The
  handler's one act before returning is its line on the console.
\<close>

theorem rejected_event_changes_nothing:
  "fst (onBarcodeScanned result t s) \<noteq> Accept \<Longrightarrow>
   snd (onBarcodeScanned result t s)
     = s\<lparr>console := console s @
          [if fst (onBarcodeScanned result t s) = RejectBusy
           then ''Escaneo ignorado: ya procesando''
           else ''scaneo ignorado: mismo codigo muy reciente'']\<rparr>"
  by (simp add: onBarcodeScanned_def console_log_def Let_def split: if_splits)

theorem rejected_event_changes_nothing_witness:
  "fst (onBarcodeScanned qr_ABC123 10400
         (snd (onBarcodeScanned qr_ABC123 10000 initial_screen))) \<noteq> Accept
   \<and> notifications (snd (onBarcodeScanned qr_ABC123 10400
         (snd (onBarcodeScanned qr_ABC123 10000 initial_screen))))
      = notifications (snd (onBarcodeScanned qr_ABC123 10000 initial_screen))
   \<and> console (snd (onBarcodeScanned qr_ABC123 10400
         (snd (onBarcodeScanned qr_ABC123 10000 initial_screen))))
      = console (snd (onBarcodeScanned qr_ABC123 10000 initial_screen))
          @ [''Escaneo ignorado: ya procesando'']"
proof -
  let ?s = "snd (onBarcodeScanned qr_ABC123 10000 initial_screen)"
  have busy: "fst (onBarcodeScanned qr_ABC123 10400 ?s) = RejectBusy"
    by (simp add: eval_defs qr_ABC123_def)
  then have h: "fst (onBarcodeScanned qr_ABC123 10400 ?s) \<noteq> Accept"
    by simp
  from rejected_event_changes_nothing [OF h] busy show ?thesis
    by simp
qed

section \<open>Synchronisation\<close>

text \<open>
  The \<^verbatim>\<open>catch\<close> of \<^verbatim>\<open>syncWithServer\<close> shows one fixed alert and nothing else: whether the
  first or the second of three requests fails (no or one code sent successfully before), the
  report is the same and carries no count.
\<close>

theorem sync_failure_counterexample:
  "alerts (syncWithServer False ''http://localhost:3000'' (fails_at 1) 0
            (screen_with three_codes)) = [sync_error_alert]
   \<and> alerts (syncWithServer False ''http://localhost:3000'' (fails_at 0) 0
            (screen_with three_codes)) = [sync_error_alert]
   \<and> map (\<lambda>rq. req_body rq ! 0)
        (fetches (syncWithServer False ''http://localhost:3000'' (fails_at 1) 0
                   (screen_with three_codes)))
       = [(''data'', JString ''C-3''), (''data'', JString ''B-2'')]
   \<and> map (\<lambda>rq. req_body rq ! 0)
        (fetches (syncWithServer False ''http://localhost:3000'' (fails_at 0) 0
                   (screen_with three_codes)))
       = [(''data'', JString ''C-3'')]"
  by (simp add: sync_eval_defs fails_at_def three_codes_def screen_with_def
        sync_error_alert_def)

text \<open>
  Claim C5, amended. In remote mode, when the request for the \<open>(k+1)\<close>-th code is the first
  to fail, exactly the requests for the first \<open>k+1\<close> codes have been issued, in list order,
  and none for a later code; the failure is logged and reported by the fixed alert
  \<open>sync_error_alert\<close>, which does not tell how many codes were sent; the
  synchronisation indicator is off afterwards.
\<close>

theorem sync_stops_at_first_failure:
  assumes "k < length (scannedCodes s)"
      and "\<forall>j<k. net j (sync_request API_URL (scannedCodes s ! j)) \<noteq> Rejected"
      and "net k (sync_request API_URL (scannedCodes s ! k)) = Rejected"
  shows "fetches (syncWithServer False API_URL net now s)
           = fetches s @ map (sync_request API_URL) (take (Suc k) (scannedCodes s))
         \<and> alerts (syncWithServer False API_URL net now s) = alerts s @ [sync_error_alert]
         \<and> console (syncWithServer False API_URL net now s)
             = console s @ [''Error al sincronizar:'']
         \<and> \<not> isSyncing (syncWithServer False API_URL net now s)"
proof -
  have ne: "scannedCodes s \<noteq> []" using assms(1) by auto
  have "send_codes (sync_request API_URL) net 0 (scannedCodes s) (s\<lparr>isSyncing := True\<rparr>)
          = (Inl NetworkError,
             s\<lparr>isSyncing := True,
               fetches := fetches s
                            @ map (sync_request API_URL) (take (Suc k) (scannedCodes s))\<rparr>)"
    using send_codes_fail [of k "scannedCodes s" net 0 "sync_request API_URL"
                             "s\<lparr>isSyncing := True\<rparr>"] assms
    by simp
  then show ?thesis
    using ne by (simp add: syncWithServer_def effect_defs sync_error_alert_def)
qed

theorem sync_stops_at_first_failure_witness:
  "(1::nat) < length (scannedCodes (screen_with three_codes))
   \<and> fails_at 1 0 (sync_request ''http://localhost:3000''
                     (scannedCodes (screen_with three_codes) ! 0)) \<noteq> Rejected
   \<and> fails_at 1 1 (sync_request ''http://localhost:3000''
                     (scannedCodes (screen_with three_codes) ! 1)) = Rejected
   \<and> fetches (syncWithServer False ''http://localhost:3000'' (fails_at 1) 0
               (screen_with three_codes))
       = map (sync_request ''http://localhost:3000'') (take 2 three_codes)
   \<and> alerts (syncWithServer False ''http://localhost:3000'' (fails_at 1) 0
               (screen_with three_codes)) = [sync_error_alert]"
proof -
  let ?s = "screen_with three_codes"
  have h1: "(1::nat) < length (scannedCodes ?s)"
    by (simp add: screen_with_def three_codes_def initial_screen_def)
  have h2: "\<forall>j<1. fails_at 1 j (sync_request ''http://localhost:3000'' (scannedCodes ?s ! j))
              \<noteq> Rejected"
    by (simp add: fails_at_def)
  have h3: "fails_at 1 1 (sync_request ''http://localhost:3000'' (scannedCodes ?s ! 1))
              = Rejected"
    by (simp add: fails_at_def)
  have e: "fetches ?s = []" "alerts ?s = []" "scannedCodes ?s = three_codes"
    by (simp_all add: screen_with_def initial_screen_def)
  from sync_stops_at_first_failure
         [where k = 1 and s = ?s and net = "fails_at 1"
            and API_URL = "''http://localhost:3000''" and now = 0, OF h1 h2 h3]
       h1 h2 h3 e
  show ?thesis
    by (simp add: numeral_2_eq_2)
qed

text \<open>
  Claim C7. In local mode, synchronising a non-empty list issues no request, whatever the
  network would answer: the call only turns the indicator on and schedules, 500 ms later,
  the alert titled \<open>Modo Local\<close> whose text carries the number of codes held; when that
  callback runs, still no request has been issued.
\<close>

theorem local_mode_sync_no_network:
  assumes "scannedCodes s \<noteq> []"
  shows "syncWithServer True API_URL net now s
           = s\<lparr>isSyncing := True,
               timers := timers s
                 @ [(now + 500, LocalModeAlert (local_mode_message (length (scannedCodes s))))]\<rparr>
         \<and> fetches (run_timer (LocalModeAlert (local_mode_message (length (scannedCodes s))))
                      (syncWithServer True API_URL net now s)) = fetches s
         \<and> alerts (run_timer (LocalModeAlert (local_mode_message (length (scannedCodes s))))
                      (syncWithServer True API_URL net now s))
             = alerts s @ [(''Modo Local'', local_mode_message (length (scannedCodes s)))]"
  using assms by (simp add: syncWithServer_def effect_defs local_mode_message_def)

theorem local_mode_sync_no_network_witness:
  "scannedCodes (screen_with (take 2 three_codes)) \<noteq> []
   \<and> fetches (syncWithServer True ''http://localhost:3000'' (fails_at 0) 7000
               (screen_with (take 2 three_codes))) = []
   \<and> alerts (fire_timers 7500
              (syncWithServer True ''http://localhost:3000'' (fails_at 0) 7000
                (screen_with (take 2 three_codes))))
       = [(''Modo Local'',
           ''Estas trabajando en modo local. Tienes 2 codigos almacenados localmente.'')]"
proof -
  let ?s = "screen_with (take 2 three_codes)"
  have h: "scannedCodes ?s \<noteq> []"
    by (simp add: screen_with_def three_codes_def initial_screen_def numeral_2_eq_2)
  have e: "timers ?s = []" "alerts ?s = []" "fetches ?s = []" "length (scannedCodes ?s) = 2"
    by (simp_all add: screen_with_def three_codes_def initial_screen_def)
  have m: "local_mode_message 2
             = ''Estas trabajando en modo local. Tienes 2 codigos almacenados localmente.''"
    by (simp add: local_mode_message_def show_nat.simps)
  from local_mode_sync_no_network [OF h, of "''http://localhost:3000''" "fails_at 0" 7000]
  have "syncWithServer True ''http://localhost:3000'' (fails_at 0) 7000 ?s
          = ?s\<lparr>isSyncing := True,
                timers := [(7500, LocalModeAlert (local_mode_message 2))]\<rparr>"
    by (simp add: e)
  then show ?thesis
    using h e(2,3) by (simp add: fire_timers_def m Alert_alert_def)
qed

text \<open>
  The older screen sends \<^verbatim>\<open>data\<close> and \<^verbatim>\<open>type\<close> only: none of its requests has a
  \<^verbatim>\<open>timestamp\<close> field.
\<close>

theorem legacy_body_counterexample:
  "map req_body
     (fetches (syncWithServer_legacy False ''http://localhost:3000'' always_ok 0
                (screen_with three_codes)))
   = [[(''data'', JString ''C-3''), (''type'', JString ''aztec'')],
      [(''data'', JString ''B-2''), (''type'', JString ''code128'')],
      [(''data'', JString ''ABC123''), (''type'', JString ''qr'')]]"
  by (simp add: sync_eval_defs syncWithServer_legacy_def sync_request_legacy_def
        always_ok_def three_codes_def screen_with_def)

text \<open>
  Claim C8, amended. In remote mode, in all three screens, every request issued is the
  request built for one code of the list, the requests follow the list order, and when no
  request fails there is exactly one per code. Each is a \<open>POST\<close> to \<^verbatim>\<open>API_URL/codigos\<close> with the header
  \<^verbatim>\<open>Content-Type: application/json;encoding=utf-8\<close>. In the ref-based screen and in
  \<^verbatim>\<open>src/app/index.tsx\<close> the body has exactly the fields \<^verbatim>\<open>data\<close>, \<^verbatim>\<open>type\<close> and
  \<^verbatim>\<open>timestamp\<close> of the code; in the older screen it has exactly \<^verbatim>\<open>data\<close> and \<^verbatim>\<open>type\<close>.
\<close>

theorem sync_request_shape:
  "(\<exists>n\<le>length (scannedCodes s).
       fetches (syncWithServer False API_URL net now s)
         = fetches s @ map (sync_request API_URL) (take n (scannedCodes s)))
   \<and> ((\<forall>j<length (scannedCodes s).
          net j (sync_request API_URL (scannedCodes s ! j)) \<noteq> Rejected) \<longrightarrow>
        fetches (syncWithServer False API_URL net now s)
          = fetches s @ map (sync_request API_URL) (scannedCodes s))
   \<and> req_method (sync_request API_URL c) = ''POST''
   \<and> req_url (sync_request API_URL c) = API_URL @ ''/codigos''
   \<and> map_of (req_headers (sync_request API_URL c)) ''Content-Type''
       = Some ''application/json;encoding=utf-8''
   \<and> req_body (sync_request API_URL c)
       = [(''data'', JString (code_data c)), (''type'', JString (code_type c)),
          (''timestamp'', JNumber (code_timestamp c))]
   \<and> (\<exists>n\<le>length (scannedCodes s).
       fetches (syncWithServer_legacy False API_URL net now s)
         = fetches s @ map (sync_request_legacy API_URL) (take n (scannedCodes s)))
   \<and> ((\<forall>j<length (scannedCodes s).
          net j (sync_request_legacy API_URL (scannedCodes s ! j)) \<noteq> Rejected) \<longrightarrow>
        fetches (syncWithServer_legacy False API_URL net now s)
          = fetches s @ map (sync_request_legacy API_URL) (scannedCodes s))
   \<and> req_method (sync_request_legacy API_URL c) = ''POST''
   \<and> req_url (sync_request_legacy API_URL c) = API_URL @ ''/codigos''
   \<and> map_of (req_headers (sync_request_legacy API_URL c)) ''Content-Type''
       = Some ''application/json;encoding=utf-8''
   \<and> req_body (sync_request_legacy API_URL c)
       = [(''data'', JString (code_data c)), (''type'', JString (code_type c))]"
proof -
  let ?s1 = "s\<lparr>isSyncing := True\<rparr>"
  have p1: "\<exists>n\<le>length (scannedCodes s).
       fetches (syncWithServer False API_URL net now s)
         = fetches s @ map (sync_request API_URL) (take n (scannedCodes s))"
  proof (cases "scannedCodes s = []")
    case True
    then show ?thesis by (simp add: syncWithServer_def effect_defs)
  next
    case False
    from send_codes_prefix [of "scannedCodes s" "sync_request API_URL" net 0 ?s1]
    obtain n where n: "n \<le> length (scannedCodes s)"
      "snd (send_codes (sync_request API_URL) net 0 (scannedCodes s) ?s1)
         = ?s1\<lparr>fetches := fetches ?s1 @ map (sync_request API_URL) (take n (scannedCodes s))\<rparr>"
      by blast
    have "fetches (syncWithServer False API_URL net now s)
            = fetches s @ map (sync_request API_URL) (take n (scannedCodes s))"
      using False n(2)
      by (simp add: syncWithServer_def effect_defs case_prod_beta Let_def split: sum.split)
    with n(1) show ?thesis by blast
  qed
  have p2: "fetches (syncWithServer False API_URL net now s)
          = fetches s @ map (sync_request API_URL) (scannedCodes s)"
    if ok: "\<forall>j<length (scannedCodes s).
          net j (sync_request API_URL (scannedCodes s ! j)) \<noteq> Rejected"
  proof (cases "scannedCodes s = []")
    case True
    then show ?thesis by (simp add: syncWithServer_def effect_defs)
  next
    case False
    from send_codes_ok [of "scannedCodes s" net 0 "sync_request API_URL" ?s1] ok
    have "send_codes (sync_request API_URL) net 0 (scannedCodes s) ?s1
            = (Inr (), ?s1\<lparr>fetches := fetches ?s1
                                 @ map (sync_request API_URL) (scannedCodes s)\<rparr>)"
      by simp
    then show ?thesis
      using False by (simp add: syncWithServer_def effect_defs)
  qed
  have p3: "\<exists>n\<le>length (scannedCodes s).
       fetches (syncWithServer_legacy False API_URL net now s)
         = fetches s @ map (sync_request_legacy API_URL) (take n (scannedCodes s))"
  proof (cases "scannedCodes s = []")
    case True
    then show ?thesis by (simp add: syncWithServer_legacy_def effect_defs)
  next
    case False
    from send_codes_prefix [of "scannedCodes s" "sync_request_legacy API_URL" net 0 ?s1]
    obtain n where n: "n \<le> length (scannedCodes s)"
      "snd (send_codes (sync_request_legacy API_URL) net 0 (scannedCodes s) ?s1)
         = ?s1\<lparr>fetches := fetches ?s1
                    @ map (sync_request_legacy API_URL) (take n (scannedCodes s))\<rparr>"
      by blast
    have "fetches (syncWithServer_legacy False API_URL net now s)
            = fetches s @ map (sync_request_legacy API_URL) (take n (scannedCodes s))"
      using False n(2)
      by (simp add: syncWithServer_legacy_def effect_defs case_prod_beta Let_def split: sum.split)
    with n(1) show ?thesis by blast
  qed
  have p4: "fetches (syncWithServer_legacy False API_URL net now s)
          = fetches s @ map (sync_request_legacy API_URL) (scannedCodes s)"
    if ok: "\<forall>j<length (scannedCodes s).
          net j (sync_request_legacy API_URL (scannedCodes s ! j)) \<noteq> Rejected"
  proof (cases "scannedCodes s = []")
    case True
    then show ?thesis by (simp add: syncWithServer_legacy_def effect_defs)
  next
    case False
    from send_codes_ok [of "scannedCodes s" net 0 "sync_request_legacy API_URL" ?s1] ok
    have "send_codes (sync_request_legacy API_URL) net 0 (scannedCodes s) ?s1
            = (Inr (), ?s1\<lparr>fetches := fetches ?s1
                                 @ map (sync_request_legacy API_URL) (scannedCodes s)\<rparr>)"
      by simp
    then show ?thesis
      using False by (simp add: syncWithServer_legacy_def effect_defs)
  qed
  show ?thesis
    using p1 p2 p3 p4 by (simp add: sync_request_def sync_request_legacy_def)
qed

theorem sync_request_shape_witness:
  "fetches (syncWithServer False ''http://localhost:3000'' always_ok 0
             (screen_with three_codes))
     = map (sync_request ''http://localhost:3000'') three_codes
   \<and> map req_body
        (fetches (syncWithServer False ''http://localhost:3000'' always_ok 0
                   (screen_with three_codes)))
       = [[(''data'', JString ''C-3''), (''type'', JString ''aztec''),
           (''timestamp'', JNumber 30000)],
          [(''data'', JString ''B-2''), (''type'', JString ''code128''),
           (''timestamp'', JNumber 20000)],
          [(''data'', JString ''ABC123''), (''type'', JString ''qr''),
           (''timestamp'', JNumber 10000)]]
   \<and> fetches (syncWithServer_legacy False ''http://localhost:3000'' always_ok 0
               (screen_with three_codes))
       = map (sync_request_legacy ''http://localhost:3000'') three_codes
   \<and> map (map fst \<circ> req_body)
        (fetches (syncWithServer_legacy False ''http://localhost:3000'' always_ok 0
                   (screen_with three_codes)))
       = [[''data'', ''type''], [''data'', ''type''], [''data'', ''type'']]"
proof -
  let ?s = "screen_with three_codes"
  have h: "\<forall>j<length (scannedCodes ?s).
       always_ok j (sync_request ''http://localhost:3000'' (scannedCodes ?s ! j)) \<noteq> Rejected"
    "\<forall>j<length (scannedCodes ?s).
       always_ok j (sync_request_legacy ''http://localhost:3000'' (scannedCodes ?s ! j))
         \<noteq> Rejected"
    by (simp_all add: always_ok_def)
  have e: "fetches ?s = []" "scannedCodes ?s = three_codes"
    by (simp_all add: screen_with_def initial_screen_def)
  from sync_request_shape
         [where s = ?s and net = always_ok and API_URL = "''http://localhost:3000''"
            and now = 0]
       h
  have "fetches (syncWithServer False ''http://localhost:3000'' always_ok 0 ?s)
          = map (sync_request ''http://localhost:3000'') three_codes"
    and "fetches (syncWithServer_legacy False ''http://localhost:3000'' always_ok 0 ?s)
          = map (sync_request_legacy ''http://localhost:3000'') three_codes"
    by (simp_all add: e)
  then show ?thesis
    by (simp add: three_codes_def sync_request_def sync_request_legacy_def)
qed

section \<open>Insertion of accepted scans\<close>

text \<open>
  In the ref-based handler the existence check decides whether a record is created: three
  accepted scans of one payload, each past the cooldown, leave one record in the store; the
  second and the third produce only the notification that the code is already scanned.
\<close>

theorem known_code_not_inserted_counterexample:
  "fst (run [Decode qr_ABC123 10000, Settle 10100, Decode qr_ABC123 20000, Settle 20100,
             Decode qr_ABC123 30000, Settle 30100] connected_screen)
     = [Some Accept, None, Some Accept, None, Some Accept, None]
   \<and> stored (snd (run [Decode qr_ABC123 10000, Settle 10100, Decode qr_ABC123 20000,
                       Settle 20100, Decode qr_ABC123 30000, Settle 30100] connected_screen))
     = [\<lparr>code_id = 0, code_data = ''ABC123'', code_type = ''qr'', code_timestamp = 10100\<rparr>]
   \<and> notifications (snd (run [Decode qr_ABC123 10000, Settle 10100, Decode qr_ABC123 20000,
                       Settle 20100, Decode qr_ABC123 30000, Settle 30100] connected_screen))
     = [''Nuevo codigo escaneado: ABC123'', ''Codigo ya escaneado: ABC123'',
        ''Codigo ya escaneado: ABC123'']"
  by (simp add: eval_defs connected_screen_def qr_ABC123_def stored_def)

text \<open>
  Claim C4, amended. The store's insertion never dedupes: on a working store every call adds
  one record, whatever the store holds. The ref-based handler (part_000:122-135) inserts for
  an accepted scan only when no record has the payload. For a known payload it does nothing
  but the existence check, \<^verbatim>\<open>showNotification\<close> with \<open>Codigo ya escaneado\<close> and the
  scheduling of the unlocking, and stores nothing: the existence check decides the feedback
  and the creation of the record. On a device whose notification call succeeds the message
  of either case reaches the notification sink. The handler of \<^verbatim>\<open>src/app/index.tsx\<close>,
  which has no existence check, inserts a record for every scan that passes its guard.
\<close>

theorem insert_only_for_unknown_payload:
  "(\<not> fails OpInsert d \<longrightarrow>
      records (snd (insertarCodigo (result_data r) (result_type r) now d))
        = new_code r now d # records d)
   \<and> (pending s = Some r \<and> db s = Some d \<and> failing d = [] \<longrightarrow>
        stored (onBarcodeScanned_settle now s)
          = (if known r d then records d else new_code r now d # records d)
        \<and> (known r d \<longrightarrow>
             onBarcodeScanned_settle now s
               = setTimeout Unlock PROCESSING_TIMEOUT now
                   (showNotification (''Codigo ya escaneado: '' @ result_data r)
                      (s\<lparr>pending := None, db := Some (attempt OpExists d)\<rparr>)))
        \<and> (\<not> is_web (platform_env s) \<and> delivers (platform_env s) \<longrightarrow>
             notifications (onBarcodeScanned_settle now s)
               = notifications s
                   @ [(if known r d then ''Codigo ya escaneado: ''
                       else ''Nuevo codigo escaneado: '') @ result_data r]))
   \<and> (isScanning_seen s \<and> db s = Some d \<and> failing d = [] \<longrightarrow>
        stored (snd (onBarcodeScanned_index r now s)) = new_code r now d # records d)"
proof (intro conjI impI)
  assume "\<not> fails OpInsert d"
  then show "records (snd (insertarCodigo (result_data r) (result_type r) now d))
               = new_code r now d # records d"
    by (simp add: insertarCodigo_def new_code_def attempt_def Let_def)
next
  assume a: "pending s = Some r \<and> db s = Some d \<and> failing d = []"
  then have nf: "\<not> fails OpExists d" by (simp add: fails_def)
  show "stored (onBarcodeScanned_settle now s)
          = (if known r d then records d else new_code r now d # records d)"
  proof (cases "known r d")
    case True
    with a nf settle_known [of s r d now] show ?thesis
      by (simp add: stored_def attempt_def setTimeout_def showNotification_fields)
  next
    case False
    with a settle_unknown [of s r d now] show ?thesis by simp
  qed
next
  assume a: "pending s = Some r \<and> db s = Some d \<and> failing d = []" and k: "known r d"
  then have "\<not> fails OpExists d" by (simp add: fails_def)
  with a k settle_known [of s r d now]
  show "onBarcodeScanned_settle now s
          = setTimeout Unlock PROCESSING_TIMEOUT now
              (showNotification (''Codigo ya escaneado: '' @ result_data r)
                 (s\<lparr>pending := None, db := Some (attempt OpExists d)\<rparr>))"
    by simp
next
  assume "pending s = Some r \<and> db s = Some d \<and> failing d = []"
    and "\<not> is_web (platform_env s) \<and> delivers (platform_env s)"
  with settle_notifies [of s r d now]
  show "notifications (onBarcodeScanned_settle now s)
          = notifications s
              @ [(if known r d then ''Codigo ya escaneado: ''
                  else ''Nuevo codigo escaneado: '') @ result_data r]"
    by simp
next
  assume "isScanning_seen s \<and> db s = Some d \<and> failing d = []"
  with index_inserts [of s d r now]
  show "stored (snd (onBarcodeScanned_index r now s)) = new_code r now d # records d"
    by simp
qed

theorem insert_only_for_unknown_payload_witness:
  "pending rescanned_screen = Some qr_ABC123
   \<and> db rescanned_screen = Some one_code_db
   \<and> failing one_code_db = [] \<and> known qr_ABC123 one_code_db
   \<and> isScanning_seen rescanned_screen
   \<and> delivers (platform_env rescanned_screen)
   \<and> pending (snd (onBarcodeScanned qr_ABC123 10000 connected_screen)) = Some qr_ABC123
   \<and> db (snd (onBarcodeScanned qr_ABC123 10000 connected_screen)) = Some empty_db
   \<and> stored (onBarcodeScanned_settle 10100
                (snd (onBarcodeScanned qr_ABC123 10000 connected_screen)))
       = [\<lparr>code_id = 0, code_data = ''ABC123'', code_type = ''qr'', code_timestamp = 10100\<rparr>]
   \<and> stored (onBarcodeScanned_settle 20100 rescanned_screen)
       = [\<lparr>code_id = 0, code_data = ''ABC123'', code_type = ''qr'', code_timestamp = 10100\<rparr>]
   \<and> notifications (onBarcodeScanned_settle 20100 rescanned_screen)
       = [''Nuevo codigo escaneado: ABC123'', ''Codigo ya escaneado: ABC123'']
   \<and> stored (snd (onBarcodeScanned_index qr_ABC123 20100 rescanned_screen))
       = [\<lparr>code_id = 1, code_data = ''ABC123'', code_type = ''qr'', code_timestamp = 20100\<rparr>,
          \<lparr>code_id = 0, code_data = ''ABC123'', code_type = ''qr'', code_timestamp = 10100\<rparr>]
   \<and> map code_data (records (insert_ABC123 30000 (insert_ABC123 20000
                               (insert_ABC123 10000 empty_db))))
       = [''ABC123'', ''ABC123'', ''ABC123'']
   \<and> fst (existeCodigo ''ABC123'' (insert_ABC123 30000 (insert_ABC123 20000
                               (insert_ABC123 10000 empty_db)))) = Inr True
   \<and> map_sum id total (fst (obtenerEstadisticas (insert_ABC123 30000 (insert_ABC123 20000
                               (insert_ABC123 10000 empty_db))))) = Inr 3"
proof -
  let ?d2 = "insert_ABC123 20000 (insert_ABC123 10000 empty_db)"
  have st: "rescanned_screen
      = initial_screen
          \<lparr>lastScannedCode := ''ABC123'', lastScannedTime := 20000, isProcessingRef := True,
            db := Some one_code_db, scannedCodes := records one_code_db,
            stats := computeStats (records one_code_db), pending := Some qr_ABC123,
            notifications := [''Nuevo codigo escaneado: ABC123''],
            console := [''Procesando escaneo: ABC123'', ''Escaneo desbloqueado'',
                        ''Procesando escaneo: ABC123'']\<rparr>"
    by (simp add: rescanned_screen_def one_code_db_def eval_defs connected_screen_def
          qr_ABC123_def)
  have h: "pending rescanned_screen = Some qr_ABC123" "db rescanned_screen = Some one_code_db"
    "failing one_code_db = []" "known qr_ABC123 one_code_db"
    "isScanning_seen rescanned_screen" "\<not> is_web (platform_env rescanned_screen)"
    "delivers (platform_env rescanned_screen)"
    "notifications rescanned_screen = [''Nuevo codigo escaneado: ABC123'']"
    by (simp_all add: st initial_screen_def native_platform_def one_code_db_def known_def
          qr_ABC123_def)
  have i: "\<not> fails OpInsert ?d2"
    by (simp add: insert_ABC123_def eval_defs)
  have r2: "map code_data (records ?d2) = [''ABC123'', ''ABC123'']" "next_id ?d2 = 2"
    by (simp_all add: insert_ABC123_def eval_defs)
  from insert_only_for_unknown_payload
         [where d = ?d2 and r = qr_ABC123 and now = 30000 and s = initial_screen] i
  have three: "records (insert_ABC123 30000 ?d2) = new_code qr_ABC123 30000 ?d2 # records ?d2"
    by (simp add: insert_ABC123_def qr_ABC123_def)
  from insert_only_for_unknown_payload
         [where d = one_code_db and r = qr_ABC123 and now = 20100 and s = rescanned_screen] h
  have "stored (onBarcodeScanned_settle 20100 rescanned_screen)
          = (if known qr_ABC123 one_code_db then records one_code_db
             else new_code qr_ABC123 20100 one_code_db # records one_code_db)
        \<and> notifications (onBarcodeScanned_settle 20100 rescanned_screen)
          = notifications rescanned_screen
              @ [(if known qr_ABC123 one_code_db then ''Codigo ya escaneado: ''
                  else ''Nuevo codigo escaneado: '') @ result_data qr_ABC123]
        \<and> stored (snd (onBarcodeScanned_index qr_ABC123 20100 rescanned_screen))
          = new_code qr_ABC123 20100 one_code_db # records one_code_db"
    by blast
  with h have handler:
    "stored (onBarcodeScanned_settle 20100 rescanned_screen) = records one_code_db"
    "notifications (onBarcodeScanned_settle 20100 rescanned_screen)
       = [''Nuevo codigo escaneado: ABC123'', ''Codigo ya escaneado: ABC123'']"
    "stored (snd (onBarcodeScanned_index qr_ABC123 20100 rescanned_screen))
       = new_code qr_ABC123 20100 one_code_db # records one_code_db"
    by (simp_all add: qr_ABC123_def)
  have u: "pending (snd (onBarcodeScanned qr_ABC123 10000 connected_screen)) = Some qr_ABC123"
    "db (snd (onBarcodeScanned qr_ABC123 10000 connected_screen)) = Some empty_db"
    "failing empty_db = []" "\<not> known qr_ABC123 empty_db"
    by (simp_all add: eval_defs connected_screen_def qr_ABC123_def known_def)
  from insert_only_for_unknown_payload
         [where d = empty_db and r = qr_ABC123 and now = 10100
            and s = "snd (onBarcodeScanned qr_ABC123 10000 connected_screen)"] u
  have "stored (onBarcodeScanned_settle 10100
                 (snd (onBarcodeScanned qr_ABC123 10000 connected_screen)))
          = (if known qr_ABC123 empty_db then records empty_db
             else new_code qr_ABC123 10100 empty_db # records empty_db)"
    by blast
  with u have first:
    "stored (onBarcodeScanned_settle 10100
              (snd (onBarcodeScanned qr_ABC123 10000 connected_screen)))
       = [new_code qr_ABC123 10100 empty_db]"
    by (simp add: empty_db_def)
  show ?thesis
    using h u(1,2) first handler three i r2
    by (simp add: new_code_def qr_ABC123_def one_code_db_def existeCodigo_def
          obtenerEstadisticas_def computeStats_def fails_def insert_ABC123_def
          insertarCodigo_def attempt_def empty_db_def Let_def)
qed

section \<open>Storage failures\<close>

text \<open>
  \<^verbatim>\<open>updateData\<close> swallows a failed read: the store reports \<open>StorageError\<close>, and
  \<^verbatim>\<open>updateData\<close> returns normally, shows no alert and leaves the displayed list as it was
  (empty, though the store holds a record); its one trace is a line on the console.
\<close>

theorem swallowed_read_failure_counterexample:
  "fst (consultarCodigos unreadable_db) = Inl StorageError
   \<and> fst (updateData unreadable_db initial_screen) = Inr ()
   \<and> alerts (snd (updateData unreadable_db initial_screen)) = []
   \<and> scannedCodes (snd (updateData unreadable_db initial_screen)) = []
   \<and> console (snd (updateData unreadable_db initial_screen)) = [''Error actualizando datos:'']"
  by (simp add: unreadable_db_def eval_defs)

text \<open>
  Claim C6, amended. A storage failure surfaces from the store as an error to the screen
  function that made the call; what happens then depends on the function, and none retries
  (the store's call log grows by the one failed attempt).
  \<^item> \<^verbatim>\<open>updateData\<close> (list read, statistics) catches it, logs it to the console and returns
    normally, with the displayed codes and statistics unchanged and no alert.
  \<^item> The ref-based scan handler (existence check, insertion), \<^verbatim>\<open>deleteCode\<close>, the clearing
    action and \<^verbatim>\<open>retrieveLocalDbData\<close> of the ref-based screen and of \<^verbatim>\<open>src/app/index.tsx\<close>
    catch it, log it and show an error alert.
  \<^item> The scan handlers of \<^verbatim>\<open>src/app/index.tsx\<close> and of the older screen (insertion, list
    read) and the older screen's \<^verbatim>\<open>retrieveLocalDbData\<close> (connection, list read) have no
    \<^verbatim>\<open>try\<close>: the failure rejects their promise, and they leave no alert and no log of it.
\<close>

theorem storage_failure_outcomes:
  "(fails OpRead d \<longrightarrow>
      updateData d s
        = (Inr (), s\<lparr>db := Some (attempt OpRead d),
                     console := console s @ [''Error actualizando datos:'']\<rparr>))
   \<and> (\<not> fails OpRead d \<and> fails OpStats d \<longrightarrow>
      updateData d s
        = (Inr (), s\<lparr>db := Some (attempt OpStats (attempt OpRead d)),
                     console := console s @ [''Error actualizando datos:'']\<rparr>))
   \<and> (pending s = Some r \<and> db s = Some d \<and> fails OpExists d \<longrightarrow>
      onBarcodeScanned_settle now s
        = s\<lparr>pending := None, db := Some (attempt OpExists d),
            console := console s @ [''Error procesando escaneo:''],
            alerts := alerts s @ [(''Error'', ''No se pudo procesar el codigo escaneado'')],
            timers := timers s @ [(now + PROCESSING_TIMEOUT, Unlock)]\<rparr>)
   \<and> (pending s = Some r \<and> db s = Some d \<and> \<not> fails OpExists d \<and> \<not> known r d
        \<and> fails OpInsert d \<longrightarrow>
      onBarcodeScanned_settle now s
        = setTimeout Unlock PROCESSING_TIMEOUT now
            (Alert_alert ''Error'' ''No se pudo procesar el codigo escaneado''
               (console_log ''Error procesando escaneo:''
                  ((showNotification (''Nuevo codigo escaneado: '' @ result_data r)
                      (s\<lparr>pending := None, db := Some (attempt OpExists d)\<rparr>))
                   \<lparr>db := Some (attempt OpInsert (attempt OpExists d))\<rparr>))))
   \<and> (db s = Some d \<and> fails OpDelete d \<longrightarrow>
      deleteCode i s
        = s\<lparr>db := Some (attempt OpDelete d),
            console := console s @ [''Error eliminando codigo:''],
            alerts := alerts s @ [(''Error'', ''No se pudo eliminar el codigo'')]\<rparr>)
   \<and> (db s = Some d \<and> fails OpClear d \<longrightarrow>
      clearScannedCodes_onPress s
        = s\<lparr>db := Some (attempt OpClear d),
            console := console s @ [''Error limpiando codigos:''],
            alerts := alerts s @ [(''Error'', ''No se pudo limpiar el historial'')]\<rparr>)
   \<and> retrieveLocalDbData (Inl e) s
        = Alert_alert ''Error'' ''No se pudo conectar a la base de datos''
            (console_log ''Error conectando a la base de datos:'' s)
   \<and> (isScanning_seen s \<and> db s = Some d \<and> fails OpInsert d \<longrightarrow>
      onBarcodeScanned_index r now s
        = (Inl StorageError,
           (showNotification (''Codigo escaneado: '' @ result_data r)
              (setTimeout ResumeScanning 1000 now (s\<lparr>isScanning := False\<rparr>)))
           \<lparr>db := Some (attempt OpInsert d)\<rparr>)
      \<and> onBarcodeScanned_legacy r now s
        = (Inl StorageError,
           (showNotification (''Codigo escaneado: '' @ result_data r)
              (s\<lparr>isScanning := False\<rparr>))
           \<lparr>db := Some (attempt OpInsert d)\<rparr>))
   \<and> (isScanning_seen s \<and> db s = Some d \<and> \<not> fails OpInsert d \<and> fails OpRead d \<longrightarrow>
      onBarcodeScanned_index r now s
        = (Inl StorageError,
           (showNotification (''Codigo escaneado: '' @ result_data r)
              (setTimeout ResumeScanning 1000 now (s\<lparr>isScanning := False\<rparr>)))
           \<lparr>db := Some (attempt OpRead
                          (snd (insertarCodigo (result_data r) (result_type r) now d)))\<rparr>)
      \<and> onBarcodeScanned_legacy r now s
        = (Inl StorageError,
           (showNotification (''Codigo escaneado: '' @ result_data r)
              (s\<lparr>isScanning := False\<rparr>))
           \<lparr>db := Some (attempt OpRead
                          (snd (insertarCodigo (result_data r) (result_type r) now d)))\<rparr>))
   \<and> retrieveLocalDbData_legacy (Inl e) s = (Inl e, s)
   \<and> (fails OpRead d \<longrightarrow>
      retrieveLocalDbData_legacy (Inr d) s
        = (Inl StorageError, s\<lparr>db := Some (attempt OpRead d)\<rparr>))"
proof (intro conjI impI)
  show "retrieveLocalDbData (Inl e) s
        = Alert_alert ''Error'' ''No se pudo conectar a la base de datos''
            (console_log ''Error conectando a la base de datos:'' s)"
    by (simp add: retrieveLocalDbData_def)
  show "retrieveLocalDbData_legacy (Inl e) s = (Inl e, s)"
    by (simp add: retrieveLocalDbData_legacy_def)
  show "retrieveLocalDbData_legacy (Inr d) s
        = (Inl StorageError, s\<lparr>db := Some (attempt OpRead d)\<rparr>)" if "fails OpRead d"
    using that by (simp add: retrieveLocalDbData_legacy_def consultarCodigos_def)
qed (simp_all add: updateData_read_fails updateData_stats_fails settle_exists_fails
       settle_insert_fails delete_fails clear_fails index_insert_fails index_read_fails
       legacy_insert_fails legacy_read_fails)

theorem storage_failure_outcomes_witness:
  "fails OpRead unreadable_db
   \<and> updateData unreadable_db connected_screen
       = (Inr (), connected_screen
                    \<lparr>db := Some (unreadable_db\<lparr>calls := [OpRead]\<rparr>),
                      console := [''Error actualizando datos:'']\<rparr>)
   \<and> isScanning_seen broken_screen
   \<and> db broken_screen = Some (empty_db\<lparr>failing := [OpInsert]\<rparr>)
   \<and> fails OpInsert (empty_db\<lparr>failing := [OpInsert]\<rparr>)
   \<and> fst (onBarcodeScanned_index qr_ABC123 10000 broken_screen) = Inl StorageError
   \<and> alerts (snd (onBarcodeScanned_index qr_ABC123 10000 broken_screen)) = []
   \<and> console (snd (onBarcodeScanned_index qr_ABC123 10000 broken_screen)) = []
   \<and> fst (onBarcodeScanned_legacy qr_ABC123 10000 broken_screen) = Inl StorageError
   \<and> timers (snd (onBarcodeScanned_legacy qr_ABC123 10000 broken_screen)) = []
   \<and> alerts (snd (run [Decode qr_ABC123 10000, Settle 10100] broken_screen))
       = [(''Error'', ''No se pudo procesar el codigo escaneado'')]"
proof -
  have h: "fails OpRead unreadable_db"
    by (simp add: fails_def unreadable_db_def)
  have c: "console connected_screen = []" "attempt OpRead unreadable_db
             = unreadable_db\<lparr>calls := [OpRead]\<rparr>"
    by (simp_all add: connected_screen_def initial_screen_def attempt_def unreadable_db_def)
  have b: "isScanning_seen broken_screen"
    "db broken_screen = Some (empty_db\<lparr>failing := [OpInsert]\<rparr>)"
    "fails OpInsert (empty_db\<lparr>failing := [OpInsert]\<rparr>)"
    by (simp_all add: broken_screen_def initial_screen_def fails_def)
  have n: "showNotification m (x\<lparr>isScanning := False\<rparr>)
             = x\<lparr>isScanning := False, notifications := notifications x @ [m]\<rparr>"
    if "platform_env x = native_platform" for m x
    using that by (simp add: showNotification_def native_platform_def)
  have p: "platform_env broken_screen = native_platform"
    "platform_env (setTimeout ResumeScanning 1000 10000 broken_screen) = native_platform"
    "alerts broken_screen = []" "console broken_screen = []" "timers broken_screen = []"
    by (simp_all add: broken_screen_def initial_screen_def setTimeout_def)
  have a: "alerts (snd (run [Decode qr_ABC123 10000, Settle 10100] broken_screen))
       = [(''Error'', ''No se pudo procesar el codigo escaneado'')]"
    by (simp add: eval_defs broken_screen_def qr_ABC123_def)
  from storage_failure_outcomes
         [where d = "empty_db\<lparr>failing := [OpInsert]\<rparr>" and s = broken_screen
            and r = qr_ABC123 and now = 10000] b
  have "onBarcodeScanned_index qr_ABC123 10000 broken_screen
        = (Inl StorageError,
           (showNotification (''Codigo escaneado: '' @ result_data qr_ABC123)
              (setTimeout ResumeScanning 1000 10000 (broken_screen\<lparr>isScanning := False\<rparr>)))
           \<lparr>db := Some (attempt OpInsert (empty_db\<lparr>failing := [OpInsert]\<rparr>))\<rparr>)"
    and "onBarcodeScanned_legacy qr_ABC123 10000 broken_screen
        = (Inl StorageError,
           (showNotification (''Codigo escaneado: '' @ result_data qr_ABC123)
              (broken_screen\<lparr>isScanning := False\<rparr>))
           \<lparr>db := Some (attempt OpInsert (empty_db\<lparr>failing := [OpInsert]\<rparr>))\<rparr>)"
    by simp_all
  then have v: "fst (onBarcodeScanned_index qr_ABC123 10000 broken_screen) = Inl StorageError"
    "alerts (snd (onBarcodeScanned_index qr_ABC123 10000 broken_screen)) = []"
    "console (snd (onBarcodeScanned_index qr_ABC123 10000 broken_screen)) = []"
    "fst (onBarcodeScanned_legacy qr_ABC123 10000 broken_screen) = Inl StorageError"
    "timers (snd (onBarcodeScanned_legacy qr_ABC123 10000 broken_screen)) = []"
    using p
    by (simp_all add: showNotification_def native_platform_def setTimeout_def Let_def)
  from storage_failure_outcomes [where d = unreadable_db and s = connected_screen] h c a b v
  show ?thesis by simp
qed

end
